theory Spec2Isabelle
  imports Main
begin

section \<open>A type-erased callable container with small-object storage\<close>

text \<open>
  The development embeds \<^verbatim>\<open>function.h\<close>: the inline buffer, the per-type operation
  tables (invoke, copy, move, destroy), the \<^verbatim>\<open>storage\<close> special member functions
  and the public \<^verbatim>\<open>function<R(Args...)>\<close> wrapper.

  C++ templates range over arbitrary callable types. Here the callable objects of all
  types live in one universe; what the container's code relies on from a type
  (its traits, its call operator, its constructors) is a parameter, the record
  \<open>types\<close> below. Call arguments are \<open>'a\<close>, results \<open>'r\<close>.
\<close>

subsection \<open>Exceptions and outcomes\<close>

type_synonym tid = nat
type_synonym addr = nat

datatype exn = bad_function_call | bad_alloc | user_exception nat

text \<open>\<^verbatim>\<open>bad_function_call::what()\<close>.\<close>

definition bad_function_call_what :: string where
  "bad_function_call_what = ''empty function call''"

text \<open>
  What running a piece of code comes to: it returns (\<open>Ret\<close>, with the result and the
  state it leaves), it throws (\<open>Throw\<close>, with the state at the point the exception
  leaves), an exception reaches a \<^verbatim>\<open>noexcept\<close> boundary (\<open>Terminate\<close>), or the
  behaviour is undefined (\<open>UB\<close>: a dead or mistyped object is used, freed memory is
  freed again, an uninitialised table pointer is followed).
\<close>

datatype ('x, 'y) outcome = Ret 'x | Throw exn 'y | Terminate | UB

subsection \<open>The callable types\<close>

text \<open>
  An object is a value of some concrete type: \<open>ty\<close> names the type, \<open>state\<close> is
  the object's state.
\<close>

record 's object =
  ty :: tid
  state :: 's

text \<open>
  What a type \<open>T\<close> brings: \<^verbatim>\<open>sizeof(T)\<close>, \<^verbatim>\<open>alignof(T)\<close>,
  \<^verbatim>\<open>std::is_nothrow_move_constructible<T>\<close>; its call operators, each of which gives
  the result or the exception thrown, and the state the object is left in (a stateful
  callable changes): \<open>call_op\<close> is the \<^verbatim>\<open>operator()\<close> that a call on an object of
  type \<^verbatim>\<open>T\<close> selects, \<open>const_call_op\<close> the one that a call on a \<^verbatim>\<open>const T\<close>
  selects (the same one when the type has only a \<^verbatim>\<open>const\<close> call operator; through
  \<^verbatim>\<open>mutable\<close> members it too can change the object; a type with no call operator for
  a \<^verbatim>\<open>const\<close> object is refused by the compiler wherever such a call is written);
  whether its copy constructor throws on a given object
  (\<open>copy_throws\<close>; otherwise the copy is equal to the original); whether its move
  constructor throws (\<open>move_throws\<close>; otherwise the new object has the state of the
  old one). Destructors do not throw.
  \<open>sizeof_ptr\<close> and \<open>alignof_ptr\<close> are \<^verbatim>\<open>sizeof(void *)\<close> and \<^verbatim>\<open>alignof(void *)\<close>.
\<close>

record ('s, 'a, 'r) types =
  sizeof_ptr :: nat
  alignof_ptr :: nat
  sizeof :: "tid \<Rightarrow> nat"
  alignof :: "tid \<Rightarrow> nat"
  is_nothrow_move_constructible :: "tid \<Rightarrow> bool"
  call_op :: "tid \<Rightarrow> 's \<Rightarrow> 'a \<Rightarrow> (exn + 'r) \<times> 's"
  const_call_op :: "tid \<Rightarrow> 's \<Rightarrow> 'a \<Rightarrow> (exn + 'r) \<times> 's"
  copy_throws :: "tid \<Rightarrow> 's \<Rightarrow> exn option"
  move_throws :: "tid \<Rightarrow> 's \<Rightarrow> exn option"

text \<open>\<^verbatim>\<open>is_small_v<T>\<close> (function.h:6-8).\<close>

definition is_small_v :: "('s, 'a, 'r) types \<Rightarrow> tid \<Rightarrow> bool" where
  "is_small_v E T \<longleftrightarrow>
     sizeof E T \<le> sizeof_ptr E
     \<and> alignof_ptr E mod alignof E T = 0
     \<and> is_nothrow_move_constructible E T"

text \<open>
  \<open>x(args...)\<close>: the result, and the object afterwards; for an object \<open>x\<close>, and
  for an \<open>x\<close> that is reached through a reference to \<^verbatim>\<open>const\<close>.
\<close>

definition call_obj :: "('s, 'a, 'r) types \<Rightarrow> 's object \<Rightarrow> 'a \<Rightarrow> (exn + 'r) \<times> 's object" where
  "call_obj E x args = (case call_op E (ty x) (state x) args of (res, s') \<Rightarrow> (res, x\<lparr>state := s'\<rparr>))"

definition call_const_obj ::
  "('s, 'a, 'r) types \<Rightarrow> 's object \<Rightarrow> 'a \<Rightarrow> (exn + 'r) \<times> 's object" where
  "call_const_obj E x args =
     (case const_call_op E (ty x) (state x) args of (res, s') \<Rightarrow> (res, x\<lparr>state := s'\<rparr>))"

text \<open>\<^verbatim>\<open>T(x)\<close>: the exception of the copy constructor, if it throws.\<close>

definition copy_construct :: "('s, 'a, 'r) types \<Rightarrow> 's object \<Rightarrow> exn option" where
  "copy_construct E x = copy_throws E (ty x) (state x)"

text \<open>
  \<^verbatim>\<open>T(std::move(x))\<close>: a move constructor declared \<^verbatim>\<open>noexcept\<close> does not throw;
  any other throws when \<open>move_throws\<close> says so.
\<close>

definition move_construct :: "('s, 'a, 'r) types \<Rightarrow> 's object \<Rightarrow> exn option" where
  "move_construct E x =
     (if is_nothrow_move_constructible E (ty x) then None else move_throws E (ty x) (state x))"

subsection \<open>Memory\<close>

text \<open>
  The free store is a list of cells; an address is an index, \<open>None\<close> a cell that was
  freed. Addresses are not handed out twice, so that every use of a dangling pointer
  shows. \<open>plan\<close> says which of the coming allocations succeed (\<open>False\<close>: that
  \<^verbatim>\<open>operator new\<close> throws \<^verbatim>\<open>std::bad_alloc\<close>); past its end every allocation succeeds.
\<close>

record 's mem =
  cells :: "'s object option list"
  plan :: "bool list"

definition alloc_fails :: "'s mem \<Rightarrow> bool" where
  "alloc_fails M = (case plan M of [] \<Rightarrow> False | b # _ \<Rightarrow> \<not> b)"

text \<open>
  \<^verbatim>\<open>new T(x)\<close>: allocate, then copy-construct into the block; when the constructor
  throws the block is released again and the exception goes on.
\<close>

definition new_copy :: "('s, 'a, 'r) types \<Rightarrow> 's mem \<Rightarrow> 's object \<Rightarrow> (addr \<times> 's mem, 's mem) outcome" where
  "new_copy E M x =
     (if alloc_fails M then Throw bad_alloc (M\<lparr>plan := tl (plan M)\<rparr>)
      else (case copy_construct E x of
              Some e \<Rightarrow> Throw e (M\<lparr>cells := cells M @ [None], plan := tl (plan M)\<rparr>)
            | None \<Rightarrow> Ret (length (cells M),
                           M\<lparr>cells := cells M @ [Some x], plan := tl (plan M)\<rparr>)))"

text \<open>The object of type \<open>T\<close> a pointer points to, if it is alive.\<close>

definition load :: "tid \<Rightarrow> 's mem \<Rightarrow> addr \<Rightarrow> 's object option" where
  "load T M p =
     (if p < length (cells M) then
        (case cells M ! p of
           Some x \<Rightarrow> if ty x = T then Some x else None
         | None \<Rightarrow> None)
      else None)"

text \<open>\<^verbatim>\<open>delete p\<close> for a \<^verbatim>\<open>T *p\<close>.\<close>

definition delete_obj :: "tid \<Rightarrow> 's mem \<Rightarrow> addr \<Rightarrow> 's mem option" where
  "delete_obj T M p =
     (case load T M p of
        Some x \<Rightarrow> Some (M\<lparr>cells := (cells M)[p := None]\<rparr>)
      | None \<Rightarrow> None)"

subsection \<open>Storage and operation tables\<close>

text \<open>
  \<^verbatim>\<open>fn_storage_t obj\<close>, a buffer of the size of one pointer: it holds no object
  (\<open>Raw\<close>), a small object in place (\<open>Obj\<close>), or the pointer to a large one (\<open>Ptr\<close>).
\<close>

datatype 's buf = Raw | Obj "'s object" | Ptr addr

text \<open>
  \<^verbatim>\<open>methods<R, Args...> const *\<close>: the tables are static, one for each type, so a table
  pointer is the name of its table. \<open>Garbage\<close> is a pointer that was never set.
\<close>

datatype mptr = Garbage | EmptyTab | LargeTab tid | SmallTab tid

record 's storage =
  obj :: "'s buf"
  methods :: mptr

text \<open>\<^verbatim>\<open>storage::get_small_obj<T>\<close> and \<^verbatim>\<open>storage::get_large_obj<T>\<close> (function.h:84-92).\<close>

definition get_small_obj :: "tid \<Rightarrow> 's storage \<Rightarrow> 's object option" where
  "get_small_obj T s =
     (case obj s of Obj x \<Rightarrow> if ty x = T then Some x else None | _ \<Rightarrow> None)"

definition get_large_obj :: "'s storage \<Rightarrow> addr option" where
  "get_large_obj s = (case obj s of Ptr p \<Rightarrow> Some p | _ \<Rightarrow> None)"

text \<open>\<^verbatim>\<open>get_empty_methods()\<close> (function.h:95-116).\<close>

definition get_empty_methods :: mptr where
  "get_empty_methods = EmptyTab"

text \<open>
  \<^verbatim>\<open>object_traits<T, is_small_v<T>>::get_methods()\<close>: the table of type \<open>T\<close>, from the
  generator its classification selects.
\<close>

definition get_methods :: "('s, 'a, 'r) types \<Rightarrow> tid \<Rightarrow> mptr" where
  "get_methods E T = (if is_small_v E T then SmallTab T else LargeTab T)"

text \<open>
  The four entries of a table, by table: the empty table (function.h:99-113), the
  large-object table (function.h:127-146), the small-object table (function.h:158-176).
  An entry that is reached through a table pointer that was never set, or that does
  not find an object of its type where its table says, is undefined. The large invoke
  entry (function.h:128-130) calls the object through the \<^verbatim>\<open>T *\<close> of
  \<^verbatim>\<open>get_large_obj\<close>; the small invoke entry (function.h:159-161) calls it through the
  \<^verbatim>\<open>const T &\<close> of \<^verbatim>\<open>get_small_obj\<close>, so that it is the call operator for a
  \<^verbatim>\<open>const\<close> object that runs.
\<close>

definition finish_call :: "(exn + 'r) \<Rightarrow> 's \<Rightarrow> ('r \<times> 's, 's) outcome" where
  "finish_call res s = (case res of Inr r \<Rightarrow> Ret (r, s) | Inl e \<Rightarrow> Throw e s)"

definition invoke ::
  "('s, 'a, 'r) types \<Rightarrow> mptr \<Rightarrow> 's mem \<times> 's storage \<Rightarrow> 'a
     \<Rightarrow> ('r \<times> 's mem \<times> 's storage, 's mem \<times> 's storage) outcome" where
  "invoke E m st args =
     (case st of (M, s) \<Rightarrow>
       (case m of
          Garbage \<Rightarrow> UB
        | EmptyTab \<Rightarrow> Throw bad_function_call (M, s)
        | LargeTab T \<Rightarrow>
            (case get_large_obj s of
               None \<Rightarrow> UB
             | Some p \<Rightarrow>
                 (case load T M p of
                    None \<Rightarrow> UB
                  | Some x \<Rightarrow>
                      (case call_obj E x args of
                         (res, x') \<Rightarrow>
                           finish_call res (M\<lparr>cells := (cells M)[p := Some x']\<rparr>, s))))
        | SmallTab T \<Rightarrow>
            (case get_small_obj T s of
               None \<Rightarrow> UB
             | Some x \<Rightarrow>
                 (case call_const_obj E x args of
                    (res, x') \<Rightarrow> finish_call res (M, s\<lparr>obj := Obj x'\<rparr>)))))"

definition copy ::
  "('s, 'a, 'r) types \<Rightarrow> mptr \<Rightarrow> 's mem \<times> 's storage \<times> 's storage
     \<Rightarrow> ('s mem \<times> 's storage, 's mem \<times> 's storage) outcome" where
  "copy E m st =
     (case st of (M, to, from) \<Rightarrow>
       (case m of
          Garbage \<Rightarrow> UB
        | EmptyTab \<Rightarrow> Ret (M, to\<lparr>methods := methods from\<rparr>)
        | LargeTab T \<Rightarrow>
            (case get_large_obj from of
               None \<Rightarrow> UB
             | Some p \<Rightarrow>
                 (case load T M p of
                    None \<Rightarrow> UB
                  | Some x \<Rightarrow>
                      (case new_copy E M x of
                         Ret (q, M') \<Rightarrow> Ret (M', to\<lparr>obj := Ptr q, methods := methods from\<rparr>)
                       | Throw e M' \<Rightarrow> Throw e (M', to)
                       | Terminate \<Rightarrow> Terminate
                       | UB \<Rightarrow> UB)))
        | SmallTab T \<Rightarrow>
            (case get_small_obj T from of
               None \<Rightarrow> UB
             | Some x \<Rightarrow>
                 (case copy_construct E x of
                    Some e \<Rightarrow> Throw e (M, to)
                  | None \<Rightarrow> Ret (M, to\<lparr>obj := Obj x, methods := methods from\<rparr>)))))"

text \<open>
  The move entries are \<^verbatim>\<open>noexcept\<close>: an exception inside one ends the program.
  The small entry (function.h:168-171) constructs the new object from
  \<^verbatim>\<open>std::move(from->get_small_obj<T>())\<close>. \<^verbatim>\<open>get_small_obj\<close> is a \<^verbatim>\<open>const\<close> member
  that returns \<^verbatim>\<open>const T &\<close> (function.h:84-87), so the argument is a \<^verbatim>\<open>const T &&\<close>,
  which the move constructor \<^verbatim>\<open>T(T &&)\<close> does not accept: the constructor that runs
  is the copy constructor \<^verbatim>\<open>T(const T &)\<close>, and the source keeps its object.
\<close>

definition move ::
  "('s, 'a, 'r) types \<Rightarrow> mptr \<Rightarrow> 's mem \<times> 's storage \<times> 's storage
     \<Rightarrow> ('s mem \<times> 's storage \<times> 's storage, 's mem \<times> 's storage \<times> 's storage) outcome" where
  "move E m st =
     (case st of (M, to, from) \<Rightarrow>
       (case m of
          Garbage \<Rightarrow> UB
        | EmptyTab \<Rightarrow> Ret (M, to\<lparr>methods := methods from\<rparr>, from)
        | LargeTab T \<Rightarrow>
            Ret (M, to\<lparr>obj := obj from, methods := methods from\<rparr>,
                 from\<lparr>methods := get_empty_methods\<rparr>)
        | SmallTab T \<Rightarrow>
            (case get_small_obj T from of
               None \<Rightarrow> UB
             | Some x \<Rightarrow>
                 (case copy_construct E x of
                    Some e \<Rightarrow> Terminate
                  | None \<Rightarrow> Ret (M, to\<lparr>methods := methods from, obj := Obj x\<rparr>, from)))))"

definition destroy ::
  "('s, 'a, 'r) types \<Rightarrow> mptr \<Rightarrow> 's mem \<times> 's storage
     \<Rightarrow> ('s mem \<times> 's storage, 's mem \<times> 's storage) outcome" where
  "destroy E m st =
     (case st of (M, s) \<Rightarrow>
       (case m of
          Garbage \<Rightarrow> UB
        | EmptyTab \<Rightarrow> Ret (M, s)
        | LargeTab T \<Rightarrow>
            (case get_large_obj s of
               None \<Rightarrow> UB
             | Some p \<Rightarrow>
                 (case delete_obj T M p of
                    None \<Rightarrow> UB
                  | Some M' \<Rightarrow> Ret (M', s)))
        | SmallTab T \<Rightarrow>
            (case get_small_obj T s of
               None \<Rightarrow> UB
             | Some x \<Rightarrow> Ret (M, s\<lparr>obj := Raw\<rparr>))))"

subsection \<open>The special member functions of storage\<close>

text \<open>\<^verbatim>\<open>storage() = default\<close>, with the default member initialiser of function.h:45.\<close>

definition storage_default :: "'s storage" where
  "storage_default = \<lparr>obj = Raw, methods = get_empty_methods\<rparr>"

text \<open>\<^verbatim>\<open>storage(const storage &other)\<close> (function.h:49-51).\<close>

definition storage_copy_ctor ::
  "('s, 'a, 'r) types \<Rightarrow> 's mem \<Rightarrow> 's storage
     \<Rightarrow> ('s mem \<times> 's storage, 's mem \<times> 's storage) outcome" where
  "storage_copy_ctor E M other = copy E (methods other) (M, storage_default, other)"

text \<open>\<^verbatim>\<open>storage(storage &&other) noexcept\<close> (function.h:53-55).\<close>

definition storage_move_ctor ::
  "('s, 'a, 'r) types \<Rightarrow> 's mem \<Rightarrow> 's storage
     \<Rightarrow> ('s mem \<times> 's storage \<times> 's storage, 's mem \<times> 's storage \<times> 's storage) outcome" where
  "storage_move_ctor E M other =
     (case move E (methods other) (M, storage_default, other) of
        Ret x \<Rightarrow> Ret x
      | Throw e x \<Rightarrow> Terminate
      | Terminate \<Rightarrow> Terminate
      | UB \<Rightarrow> UB)"

text \<open>\<^verbatim>\<open>~storage()\<close> (function.h:80-82); the object is gone afterwards.\<close>

definition storage_dtor ::
  "('s, 'a, 'r) types \<Rightarrow> 's mem \<times> 's storage \<Rightarrow> ('s mem, 's mem) outcome" where
  "storage_dtor E st =
     (case st of (M, this) \<Rightarrow>
       (case destroy E (methods this) (M, this) of
          Ret (M', s') \<Rightarrow> Ret M'
        | Throw e x \<Rightarrow> Terminate
        | Terminate \<Rightarrow> Terminate
        | UB \<Rightarrow> UB))"

text \<open>
  A local \<open>temp\<close> goes out of scope when its block ends, normally or by an
  exception: its destructor runs on the memory the block leaves.
\<close>

definition end_of_scope ::
  "('s, 'a, 'r) types \<Rightarrow> 's storage
     \<Rightarrow> ('s mem \<times> 's storage, 's mem \<times> 's storage) outcome
     \<Rightarrow> ('s mem \<times> 's storage, 's mem \<times> 's storage) outcome" where
  "end_of_scope E temp out =
     (case out of
        Ret (M, s) \<Rightarrow>
          (case storage_dtor E (M, temp) of
             Ret M' \<Rightarrow> Ret (M', s)
           | Throw e x \<Rightarrow> Terminate
           | Terminate \<Rightarrow> Terminate
           | UB \<Rightarrow> UB)
      | Throw e (M, s) \<Rightarrow>
          (case storage_dtor E (M, temp) of
             Ret M' \<Rightarrow> Throw e (M', s)
           | Throw e' x \<Rightarrow> Terminate
           | Terminate \<Rightarrow> Terminate
           | UB \<Rightarrow> UB)
      | Terminate \<Rightarrow> Terminate
      | UB \<Rightarrow> UB)"

text \<open>
  The right-hand side of an assignment is the assigned object itself (\<open>This\<close>,
  \<^verbatim>\<open>this == &rhs\<close>) or another object.
\<close>

datatype 'x rhs = This | Other 'x

text \<open>
  \<^verbatim>\<open>storage &operator=(const storage &rhs)\<close> (function.h:57-70): save a copy of the
  target in \<open>temp\<close>, destroy the target, copy \<open>rhs\<close> into it; when that throws, copy
  \<open>temp\<close> back and throw again.
\<close>

definition storage_copy_assign ::
  "('s, 'a, 'r) types \<Rightarrow> 's mem \<times> 's storage \<Rightarrow> 's storage rhs
     \<Rightarrow> ('s mem \<times> 's storage, 's mem \<times> 's storage) outcome" where
  "storage_copy_assign E st rhs =
     (case st of (M, this) \<Rightarrow>
       (case rhs of
          This \<Rightarrow> Ret (M, this)
        | Other r \<Rightarrow>
            (case storage_copy_ctor E M this of
               Throw e (M1, t) \<Rightarrow> Throw e (M1, this)
             | Terminate \<Rightarrow> Terminate
             | UB \<Rightarrow> UB
             | Ret (M1, temp) \<Rightarrow>
                 end_of_scope E temp
                   (case destroy E (methods this) (M1, this) of
                      Ret (M2, this2) \<Rightarrow>
                        (case copy E (methods r) (M2, this2, r) of
                           Throw e (M3, this3) \<Rightarrow>
                             (case copy E (methods temp) (M3, this3, temp) of
                                Ret (M4, this4) \<Rightarrow> Throw e (M4, this4)
                              | failed \<Rightarrow> failed)
                         | done \<Rightarrow> done)
                    | failed \<Rightarrow> failed))))"

text \<open>\<^verbatim>\<open>storage &operator=(storage &&rhs) noexcept\<close> (function.h:72-78).\<close>

definition storage_move_assign ::
  "('s, 'a, 'r) types \<Rightarrow> 's mem \<times> 's storage \<Rightarrow> 's storage rhs
     \<Rightarrow> ('s mem \<times> 's storage \<times> 's storage rhs, 's mem \<times> 's storage \<times> 's storage rhs) outcome" where
  "storage_move_assign E st rhs =
     (case st of (M, this) \<Rightarrow>
       (case rhs of
          This \<Rightarrow> Ret (M, this, This)
        | Other r \<Rightarrow>
            (case destroy E (methods this) (M, this) of
               Ret (M1, this1) \<Rightarrow>
                 (case move E (methods r) (M1, this1, r) of
                    Ret (M2, this2, r2) \<Rightarrow> Ret (M2, this2, Other r2)
                  | Throw e x \<Rightarrow> Terminate
                  | Terminate \<Rightarrow> Terminate
                  | UB \<Rightarrow> UB)
             | Throw e x \<Rightarrow> Terminate
             | Terminate \<Rightarrow> Terminate
             | UB \<Rightarrow> UB)))"

subsection \<open>The earlier storage: copy and swap\<close>

text \<open>
  The second version of the header (function.h:250-482) has the same copy and destroy
  entries in its tables. Its storage has no default member initialiser
  (function.h:291), a member \<^verbatim>\<open>swap\<close> (function.h:310-313), and assigns by copying
  \<open>rhs\<close> into a temporary and swapping (function.h:303-308).
\<close>

definition storage_uninit :: "'s storage" where
  "storage_uninit = \<lparr>obj = Raw, methods = Garbage\<rparr>"

definition storage_copy_ctor_uninit ::
  "('s, 'a, 'r) types \<Rightarrow> 's mem \<Rightarrow> 's storage
     \<Rightarrow> ('s mem \<times> 's storage, 's mem \<times> 's storage) outcome" where
  "storage_copy_ctor_uninit E M other = copy E (methods other) (M, storage_uninit, other)"

definition storage_swap :: "'s storage \<times> 's storage \<Rightarrow> 's storage \<times> 's storage" where
  "storage_swap ab =
     (case ab of (this, other) \<Rightarrow>
        (this\<lparr>obj := obj other, methods := methods other\<rparr>,
         other\<lparr>obj := obj this, methods := methods this\<rparr>))"

definition storage_copy_assign_swap ::
  "('s, 'a, 'r) types \<Rightarrow> 's mem \<times> 's storage \<Rightarrow> 's storage rhs
     \<Rightarrow> ('s mem \<times> 's storage, 's mem \<times> 's storage) outcome" where
  "storage_copy_assign_swap E st rhs =
     (case st of (M, this) \<Rightarrow>
       (case rhs of
          This \<Rightarrow> Ret (M, this)
        | Other r \<Rightarrow>
            (case storage_copy_ctor_uninit E M r of
               Throw e (M1, t) \<Rightarrow> Throw e (M1, this)
             | Terminate \<Rightarrow> Terminate
             | UB \<Rightarrow> UB
             | Ret (M1, temp) \<Rightarrow>
                 (case storage_swap (temp, this) of
                    (temp', this') \<Rightarrow> end_of_scope E temp' (Ret (M1, this'))))))"

subsection \<open>The container\<close>

record 's func =
  stg :: "'s storage"

text \<open>\<^verbatim>\<open>function() noexcept\<close> (function.h:192-194).\<close>

definition function_default :: "'s func" where
  "function_default = \<lparr>stg = storage_default\<lparr>methods := get_empty_methods\<rparr>\<rparr>"

text \<open>
  \<^verbatim>\<open>template<typename T> function(T val)\<close> (function.h:200-208); \<open>T\<close> is the type of
  the argument. The parameter is taken by value: an argument that is an lvalue is
  copied into \<open>val\<close>, one that is \<^verbatim>\<open>std::move(f)\<close> is moved into it, a prvalue is
  constructed in it. An exception of that copy or move leaves before the body runs.
\<close>

datatype passing = Lvalue | Xvalue | Prvalue

definition init_param :: "('s, 'a, 'r) types \<Rightarrow> passing \<Rightarrow> 's object \<Rightarrow> exn option" where
  "init_param E how f =
     (case how of
        Lvalue \<Rightarrow> copy_construct E f
      | Xvalue \<Rightarrow> move_construct E f
      | Prvalue \<Rightarrow> None)"

definition function_ctor ::
  "('s, 'a, 'r) types \<Rightarrow> 's mem \<Rightarrow> passing \<Rightarrow> 's object
     \<Rightarrow> ('s mem \<times> 's func, 's mem) outcome" where
  "function_ctor E M how val =
     (case init_param E how val of
        Some e \<Rightarrow> Throw e M
      | None \<Rightarrow>
          (if is_small_v E (ty val) then
             (case move_construct E val of
                Some e \<Rightarrow> Throw e M
              | None \<Rightarrow>
                  Ret (M, \<lparr>stg = storage_default
                             \<lparr>obj := Obj val, methods := get_methods E (ty val)\<rparr>\<rparr>))
           else
             (case new_copy E M val of
                Ret (p, M') \<Rightarrow>
                  Ret (M', \<lparr>stg = storage_default
                              \<lparr>obj := Ptr p, methods := get_methods E (ty val)\<rparr>\<rparr>)
              | Throw e M' \<Rightarrow> Throw e M'
              | Terminate \<Rightarrow> Terminate
              | UB \<Rightarrow> UB)))"

text \<open>
  \<^verbatim>\<open>function(function const &other) = default\<close> and
  \<^verbatim>\<open>function(function &&other) noexcept = default\<close> (function.h:196-198): the
  constructors of the one member.
\<close>

definition function_copy_ctor ::
  "('s, 'a, 'r) types \<Rightarrow> 's mem \<Rightarrow> 's func \<Rightarrow> ('s mem \<times> 's func, 's mem) outcome" where
  "function_copy_ctor E M other =
     (case storage_copy_ctor E M (stg other) of
        Ret (M', s) \<Rightarrow> Ret (M', \<lparr>stg = s\<rparr>)
      | Throw e (M', s) \<Rightarrow> Throw e M'
      | Terminate \<Rightarrow> Terminate
      | UB \<Rightarrow> UB)"

definition function_move_ctor ::
  "('s, 'a, 'r) types \<Rightarrow> 's mem \<Rightarrow> 's func
     \<Rightarrow> ('s mem \<times> 's func \<times> 's func, 's mem) outcome" where
  "function_move_ctor E M other =
     (case storage_move_ctor E M (stg other) of
        Ret (M', s, s') \<Rightarrow> Ret (M', \<lparr>stg = s\<rparr>, other\<lparr>stg := s'\<rparr>)
      | Throw e x \<Rightarrow> Terminate
      | Terminate \<Rightarrow> Terminate
      | UB \<Rightarrow> UB)"

text \<open>\<^verbatim>\<open>function &operator=(function const &rhs) = default\<close> (function.h:210).\<close>

definition function_copy_assign ::
  "('s, 'a, 'r) types \<Rightarrow> 's mem \<times> 's func \<Rightarrow> 's func rhs
     \<Rightarrow> ('s mem \<times> 's func, 's mem \<times> 's func) outcome" where
  "function_copy_assign E st rhs =
     (case st of (M, c) \<Rightarrow>
       (case storage_copy_assign E (M, stg c)
               (case rhs of This \<Rightarrow> This | Other d \<Rightarrow> Other (stg d)) of
          Ret (M', s) \<Rightarrow> Ret (M', c\<lparr>stg := s\<rparr>)
        | Throw e (M', s) \<Rightarrow> Throw e (M', c\<lparr>stg := s\<rparr>)
        | Terminate \<Rightarrow> Terminate
        | UB \<Rightarrow> UB))"

text \<open>\<^verbatim>\<open>~function() = default\<close> (function.h:214).\<close>

definition function_dtor ::
  "('s, 'a, 'r) types \<Rightarrow> 's mem \<times> 's func \<Rightarrow> ('s mem, 's mem) outcome" where
  "function_dtor E st = (case st of (M, c) \<Rightarrow> storage_dtor E (M, stg c))"

text \<open>\<^verbatim>\<open>R operator()(Args... args)\<close> (function.h:216-218).\<close>

definition function_call ::
  "('s, 'a, 'r) types \<Rightarrow> 's mem \<times> 's func \<Rightarrow> 'a
     \<Rightarrow> ('r \<times> 's mem \<times> 's func, 's mem \<times> 's func) outcome" where
  "function_call E st args =
     (case st of (M, c) \<Rightarrow>
       (case invoke E (methods (stg c)) (M, stg c) args of
          Ret (r, M', s') \<Rightarrow> Ret (r, M', c\<lparr>stg := s'\<rparr>)
        | Throw e (M', s') \<Rightarrow> Throw e (M', c\<lparr>stg := s'\<rparr>)
        | Terminate \<Rightarrow> Terminate
        | UB \<Rightarrow> UB))"

text \<open>\<^verbatim>\<open>explicit operator bool() const noexcept\<close> (function.h:220-222).\<close>

definition function_bool :: "'s func \<Rightarrow> bool" where
  "function_bool c \<longleftrightarrow> methods (stg c) \<noteq> get_empty_methods"

text \<open>
  \<^verbatim>\<open>template<typename T> T *target() noexcept\<close> (function.h:224-235). The pointer it
  returns is null, the address of the inline buffer, or the pointer the buffer holds;
  when the buffer holds no pointer, reading one from it gives an indeterminate value.
\<close>

datatype tptr = Null | InBuffer | OnHeap addr | Indeterminate

definition function_target :: "('s, 'a, 'r) types \<Rightarrow> 's func \<Rightarrow> tid \<Rightarrow> tptr" where
  "function_target E c T =
     (if get_methods E T = methods (stg c) then
        (if is_small_v E T then InBuffer
         else (case get_large_obj (stg c) of Some p \<Rightarrow> OnHeap p | None \<Rightarrow> Indeterminate))
      else Null)"

text \<open>\<^verbatim>\<open>void swap(function &other) noexcept\<close> (part_001:167-170).\<close>

definition function_swap :: "'s func \<times> 's func \<Rightarrow> 's func \<times> 's func" where
  "function_swap ab =
     (case ab of (this, other) \<Rightarrow>
        (this\<lparr>stg := (stg this)\<lparr>obj := obj (stg other), methods := methods (stg other)\<rparr>\<rparr>,
         other\<lparr>stg := (stg other)\<lparr>obj := obj (stg this), methods := methods (stg this)\<rparr>\<rparr>))"

subsection \<open>Reading a state\<close>

text \<open>The callable a storage holds in memory \<open>M\<close>, through its table.\<close>

definition held :: "'s mem \<Rightarrow> 's storage \<Rightarrow> 's object option" where
  "held M s =
     (case methods s of
        SmallTab T \<Rightarrow> get_small_obj T s
      | LargeTab T \<Rightarrow> (case get_large_obj s of Some p \<Rightarrow> load T M p | None \<Rightarrow> None)
      | _ \<Rightarrow> None)"

text \<open>The object a pointer returned by \<open>function_target\<close> for type \<open>T\<close> points to.\<close>

definition pointee :: "tid \<Rightarrow> 's mem \<times> 's func \<Rightarrow> tptr \<Rightarrow> 's object option" where
  "pointee T st q =
     (case st of (M, c) \<Rightarrow>
       (case q of
          InBuffer \<Rightarrow> get_small_obj T (stg c)
        | OnHeap p \<Rightarrow> load T M p
        | _ \<Rightarrow> None))"

text \<open>
  How a buffer leads to the payload: not at all, to the object in the buffer, or
  through the pointer in the buffer.
\<close>

datatype route = NoPayload | Inline | Heap addr

definition payload_route :: "'s buf \<Rightarrow> route" where
  "payload_route b = (case b of Raw \<Rightarrow> NoPayload | Obj x \<Rightarrow> Inline | Ptr p \<Rightarrow> Heap p)"

text \<open>The call that the invoke entry of table \<open>m\<close> makes on the object it finds.\<close>

definition entry_call ::
  "('s, 'a, 'r) types \<Rightarrow> mptr \<Rightarrow> 's object \<Rightarrow> 'a \<Rightarrow> (exn + 'r) \<times> 's object" where
  "entry_call E m x args =
     (case m of SmallTab T \<Rightarrow> call_const_obj E x args | _ \<Rightarrow> call_obj E x args)"

text \<open>What a call gave its caller: a result or an exception; nothing if it did neither.\<close>

definition result_of :: "('r \<times> 'x, 'y) outcome \<Rightarrow> (exn + 'r) option" where
  "result_of out =
     (case out of
        Ret (r, x) \<Rightarrow> Some (Inr r)
      | Throw e y \<Rightarrow> Some (Inl e)
      | _ \<Rightarrow> None)"

subsection \<open>Callable types to run the code on\<close>

text \<open>
  A counter: each call adds one to its state and returns it; its call operator is a
  \<^verbatim>\<open>const\<close> member and the count a \<^verbatim>\<open>mutable\<close> one. Type 0 is the counter
  with one \<^verbatim>\<open>int\<close> (four bytes, stored inline); type 1 carries padding that makes it
  sixteen bytes (stored on the free store). Pointers have eight bytes.
\<close>

definition counters :: "(int, unit, int) types" where
  "counters =
     \<lparr>sizeof_ptr = 8, alignof_ptr = 8,
      sizeof = (\<lambda>T. if T = 0 then 4 else 16),
      alignof = (\<lambda>T. if T = 0 then 4 else 8),
      is_nothrow_move_constructible = (\<lambda>T. True),
      call_op = (\<lambda>T n u. (Inr (n + 1), n + 1)),
      const_call_op = (\<lambda>T n u. (Inr (n + 1), n + 1)),
      copy_throws = (\<lambda>T n. None),
      move_throws = (\<lambda>T n. None)\<rparr>"

text \<open>
  A callable of the size of a pointer that owns a block on the free store and returns
  what is in it. Its move constructor is \<^verbatim>\<open>noexcept\<close> and hands the block over; its
  copy constructor allocates a block of its own, and here that allocation throws.
\<close>

definition owners :: "(int, unit, int) types" where
  "owners =
     \<lparr>sizeof_ptr = 8, alignof_ptr = 8,
      sizeof = (\<lambda>T. 8),
      alignof = (\<lambda>T. 8),
      is_nothrow_move_constructible = (\<lambda>T. True),
      call_op = (\<lambda>T n u. (Inr n, n)),
      const_call_op = (\<lambda>T n u. (Inr n, n)),
      copy_throws = (\<lambda>T n. Some bad_alloc),
      move_throws = (\<lambda>T n. None)\<rparr>"

definition owner_fn :: "int \<Rightarrow> int func" where
  "owner_fn n = \<lparr>stg = \<lparr>obj = Obj \<lparr>ty = 0, state = n\<rparr>, methods = SmallTab 0\<rparr>\<rparr>"

text \<open>
  An empty class with two call operators,
  \<^verbatim>\<open>int operator()() { return 1; }\<close> and \<^verbatim>\<open>int operator()() const { return 2; }\<close>.
\<close>

definition two_calls :: "(int, unit, int) types" where
  "two_calls =
     \<lparr>sizeof_ptr = 8, alignof_ptr = 8,
      sizeof = (\<lambda>T. 1),
      alignof = (\<lambda>T. 1),
      is_nothrow_move_constructible = (\<lambda>T. True),
      call_op = (\<lambda>T n u. (Inr 1, n)),
      const_call_op = (\<lambda>T n u. (Inr 2, n)),
      copy_throws = (\<lambda>T n. None),
      move_throws = (\<lambda>T n. None)\<rparr>"

definition two_calls_fn :: "int func" where
  "two_calls_fn = \<lparr>stg = \<lparr>obj = Obj \<lparr>ty = 0, state = 0\<rparr>, methods = SmallTab 0\<rparr>\<rparr>"

definition small_counter :: "int \<Rightarrow> int object" where
  "small_counter n = \<lparr>ty = 0, state = n\<rparr>"

definition large_counter :: "int \<Rightarrow> int object" where
  "large_counter n = \<lparr>ty = 1, state = n\<rparr>"

definition mem0 :: "int mem" where
  "mem0 = \<lparr>cells = [], plan = []\<rparr>"

text \<open>
  A memory with the given cells in which no allocation fails; the container that
  holds a small counter in its buffer; the container whose buffer points to cell \<open>p\<close>,
  for a large counter.
\<close>

definition mem_of :: "int object option list \<Rightarrow> int mem" where
  "mem_of cs = \<lparr>cells = cs, plan = []\<rparr>"

definition small_fn :: "int \<Rightarrow> int func" where
  "small_fn n = \<lparr>stg = \<lparr>obj = Obj (small_counter n), methods = SmallTab 0\<rparr>\<rparr>"

definition large_fn :: "addr \<Rightarrow> int func" where
  "large_fn p = \<lparr>stg = \<lparr>obj = Ptr p, methods = LargeTab 1\<rparr>\<rparr>"

section \<open>Auxiliary facts\<close>

text \<open>The definitions that running the code on a concrete input unfolds.\<close>

lemmas run_defs =
  function_ctor_def function_call_def function_copy_ctor_def function_move_ctor_def
  function_copy_assign_def function_dtor_def function_bool_def function_target_def
  function_default_def
  storage_default_def storage_copy_ctor_def storage_move_ctor_def storage_dtor_def
  storage_copy_assign_def storage_move_assign_def end_of_scope_def
  invoke_def copy_def move_def destroy_def finish_call_def
  get_methods_def get_empty_methods_def get_small_obj_def get_large_obj_def
  new_copy_def alloc_fails_def load_def delete_obj_def
  is_small_v_def call_obj_def call_const_obj_def copy_construct_def move_construct_def
  init_param_def entry_call_def
  held_def pointee_def result_of_def
  counters_def small_counter_def large_counter_def mem0_def mem_of_def small_fn_def large_fn_def
  owners_def owner_fn_def two_calls_def two_calls_fn_def

text \<open>A constructed container holds its argument; a call reaches the held callable.\<close>

lemma ctor_held:
  "function_ctor E M how f = Ret (M', c) \<Longrightarrow> held M' (stg c) = Some f"
  by (auto simp: function_ctor_def held_def get_methods_def storage_default_def new_copy_def
      get_small_obj_def get_large_obj_def load_def
      split: if_splits option.splits outcome.splits)

lemma call_held:
  "held M (stg c) = Some x \<Longrightarrow>
   result_of (function_call E (M, c) args) = Some (fst (entry_call E (methods (stg c)) x args))"
  by (auto simp: function_call_def invoke_def held_def result_of_def finish_call_def entry_call_def
      split: mptr.splits option.splits prod.splits sum.splits)

lemma small_move_construct: "is_small_v E (ty x) \<Longrightarrow> move_construct E x = None"
  by (simp add: is_small_v_def move_construct_def)

lemma ctor_returns:
  "init_param E how f = None \<Longrightarrow>
   is_small_v E (ty f) \<or> (\<not> alloc_fails M \<and> copy_construct E f = None) \<Longrightarrow>
   \<exists>M' c. function_ctor E M how f = Ret (M', c)"
  by (cases "is_small_v E (ty f)")
     (simp_all add: function_ctor_def new_copy_def small_move_construct)

lemma ctor_methods:
  "function_ctor E M how f = Ret (M', c) \<Longrightarrow> methods (stg c) = get_methods E (ty f)"
  by (auto simp: function_ctor_def storage_default_def split: if_splits option.splits outcome.splits)

section \<open>Properties\<close>

text \<open>
  C3. Invoking a container that holds no callable throws \<^verbatim>\<open>bad_function_call\<close>, whose
  message is "empty function call", at the call and with the container and the memory
  as they were: the call is neither ignored nor undefined. A default-constructed
  container is such a container.
\<close>

theorem call_on_empty_throws:
  "(\<not> function_bool c \<longrightarrow>
      function_call E (M, c) args = Throw bad_function_call (M, c))
   \<and> \<not> function_bool function_default
   \<and> function_call E (M, function_default) args = Throw bad_function_call (M, function_default)
   \<and> bad_function_call_what = ''empty function call''"
  by (simp add: function_call_def function_bool_def function_default_def storage_default_def
      invoke_def get_empty_methods_def bad_function_call_what_def)

theorem call_on_empty_throws_witness:
  "\<not> function_bool (function_default :: int func)
   \<and> function_call counters (mem0, function_default) () = Throw bad_function_call (mem0, function_default)"
proof -
  have e: "\<not> function_bool (function_default :: int func)"
    by (simp add: function_bool_def function_default_def storage_default_def)
  from call_on_empty_throws [of function_default counters mem0 "()"] e
  show ?thesis by blast
qed

text \<open>
  Where the call of the container and the call \<open>f(args)\<close> agree: for a large type, and
  for a small type whose call on a \<^verbatim>\<open>const\<close> object selects the call operator that the
  call on an object selects. The construction returns when the parameter can be
  initialised and, for a large type, the allocation and the copy do not throw.
\<close>

lemma ctor_then_call_agrees:
  assumes k: "function_ctor E M how f = Ret (M', c)"
    and a: "\<not> is_small_v E (ty f) \<or> const_call_op E (ty f) = call_op E (ty f)"
  shows "result_of (function_call E (M', c) args) = Some (fst (call_obj E f args))"
proof -
  from a have "entry_call E (get_methods E (ty f)) f args = call_obj E f args"
    by (auto simp: entry_call_def get_methods_def call_const_obj_def call_obj_def)
  with call_held [OF ctor_held [OF k], of E args] ctor_methods [OF k] show ?thesis by simp
qed

text \<open>
  C1. A container constructed from \<open>f\<close> is to give on \<open>args\<close> what \<open>f(args)\<close>
  gives. For a small type the invoke entry calls the object through a reference to
  \<^verbatim>\<open>const\<close>. For the class with the two call operators, \<open>f()\<close> is 1, and the
  container constructed from \<open>f\<close> gives 2.
\<close>

theorem small_call_runs_const_operator:
  "is_small_v two_calls 0
   \<and> fst (call_obj two_calls \<lparr>ty = 0, state = 0\<rparr> ()) = Inr 1
   \<and> function_ctor two_calls mem0 Lvalue \<lparr>ty = 0, state = 0\<rparr> = Ret (mem0, two_calls_fn)
   \<and> function_call two_calls (mem0, two_calls_fn) () = Ret (2, mem0, two_calls_fn)"
  by (simp add: run_defs)

lemma invoke_frame:
  assumes "invoke E m (M, s) args = Ret (r, M', s') \<or> invoke E m (M, s) args = Throw e (M', s')"
  shows "methods s' = methods s" and "payload_route (obj s') = payload_route (obj s)"
    and "m = EmptyTab \<Longrightarrow> M' = M \<and> s' = s"
  using assms
  by (auto simp: invoke_def finish_call_def payload_route_def get_small_obj_def get_large_obj_def
      split: mptr.splits option.splits prod.splits sum.splits buf.splits if_splits)

lemma invoke_held:
  assumes "invoke E (methods s) (M, s) args = Ret (r, M', s')
           \<or> invoke E (methods s) (M, s) args = Throw e (M', s')"
    and "held M s = Some x"
  shows "held M' s' = Some (snd (entry_call E (methods s) x args))"
  using assms
  by (auto simp: invoke_def finish_call_def held_def get_small_obj_def get_large_obj_def load_def
      call_obj_def call_const_obj_def entry_call_def
      split: mptr.splits option.splits prod.splits sum.splits buf.splits if_splits)

lemma function_call_invoke:
  "function_call E (M, c) args = Ret (r, M', c') \<or> function_call E (M, c) args = Throw e (M', c')
   \<Longrightarrow> invoke E (methods (stg c)) (M, stg c) args = Ret (r, M', stg c')
       \<or> invoke E (methods (stg c)) (M, stg c) args = Throw e (M', stg c')"
  by (auto simp: function_call_def split: outcome.splits)

text \<open>
  C10. A call does not change how the container leads to its payload: whether it
  returns or throws, the table pointer is the same afterwards, the buffer still holds
  the same pointer or still holds an object in place, and the held callable is the
  one the call operator left. A call on an empty container changes nothing at all.
\<close>

theorem call_keeps_routing:
  assumes "function_call E (M, c) args = Ret (r, M', c')
           \<or> function_call E (M, c) args = Throw e (M', c')"
  shows "methods (stg c') = methods (stg c)
     \<and> payload_route (obj (stg c')) = payload_route (obj (stg c))
     \<and> (\<not> function_bool c \<longrightarrow> M' = M \<and> c' = c)
     \<and> (\<forall>x. held M (stg c) = Some x \<longrightarrow>
           held M' (stg c') = Some (snd (entry_call E (methods (stg c)) x args)))"
proof -
  note i = function_call_invoke [OF assms]
  have 1: "methods (stg c') = methods (stg c)" using invoke_frame(1) [OF i] .
  have 2: "payload_route (obj (stg c')) = payload_route (obj (stg c))"
    using invoke_frame(2) [OF i] .
  have 3: "\<not> function_bool c \<longrightarrow> M' = M \<and> c' = c"
  proof
    assume "\<not> function_bool c"
    then have "methods (stg c) = EmptyTab" by (simp add: function_bool_def get_empty_methods_def)
    from invoke_frame(3) [OF i this] have "M' = M" "stg c' = stg c" by simp_all
    then show "M' = M \<and> c' = c" by simp
  qed
  have 4: "\<forall>x. held M (stg c) = Some x \<longrightarrow>
      held M' (stg c') = Some (snd (entry_call E (methods (stg c)) x args))"
    using invoke_held [OF i] by blast
  from 1 2 3 4 show ?thesis by blast
qed

theorem call_keeps_routing_witness:
  "function_call counters
      (\<lparr>cells = [Some (large_counter 0)], plan = []\<rparr>, \<lparr>stg = \<lparr>obj = Ptr 0, methods = LargeTab 1\<rparr>\<rparr>) ()
    = Ret (1, \<lparr>cells = [Some (large_counter 1)], plan = []\<rparr>,
              \<lparr>stg = \<lparr>obj = Ptr 0, methods = LargeTab 1\<rparr>\<rparr>)
   \<and> held \<lparr>cells = [Some (large_counter 1)], plan = []\<rparr> \<lparr>obj = Ptr 0, methods = LargeTab 1\<rparr>
       = Some (large_counter 1)
   \<and> function_call counters (mem0, function_default) ()
       = Throw bad_function_call (mem0, function_default)
   \<and> \<not> function_bool (function_default :: int func)"
proof -
  have h: "function_call counters
      (\<lparr>cells = [Some (large_counter 0)], plan = []\<rparr>, \<lparr>stg = \<lparr>obj = Ptr 0, methods = LargeTab 1\<rparr>\<rparr>) ()
    = Ret (1, \<lparr>cells = [Some (large_counter 1)], plan = []\<rparr>,
              \<lparr>stg = \<lparr>obj = Ptr 0, methods = LargeTab 1\<rparr>\<rparr>)"
    by (simp add: run_defs)
  have k: "function_call counters (mem0, function_default) ()
       = Throw bad_function_call (mem0, function_default)"
    by (simp add: run_defs)
  have x: "held \<lparr>cells = [Some (large_counter 0)], plan = []\<rparr> \<lparr>obj = Ptr 0, methods = LargeTab 1\<rparr>
       = Some (large_counter 0)"
    by (simp add: run_defs)
  have y: "snd (entry_call counters (methods (stg \<lparr>stg = \<lparr>obj = Ptr 0, methods = LargeTab 1\<rparr>\<rparr>))
      (large_counter 0) ()) = large_counter 1"
    by (simp add: run_defs)
  have e: "\<not> function_bool (function_default :: int func)"
    by (simp add: run_defs)
  from call_keeps_routing [OF disjI1 [OF h]] x y
  have a: "held \<lparr>cells = [Some (large_counter 1)], plan = []\<rparr> \<lparr>obj = Ptr 0, methods = LargeTab 1\<rparr>
       = Some (large_counter 1)" by simp
  from h a k e show ?thesis by blast
qed


lemma copy_throw_frame:
  "copy E m (M, to, from) = Throw e (M', to') \<Longrightarrow>
   to' = to \<and> take (length (cells M)) (cells M') = cells M"
  by (auto simp: copy_def new_copy_def
      split: mptr.splits option.splits outcome.splits if_splits prod.splits)

lemma storage_default_dtor: "storage_dtor E (M, storage_default) = Ret M"
  by (simp add: storage_dtor_def storage_default_def destroy_def get_empty_methods_def)

text \<open>
  The earlier storage (function.h:289-297) starts with a table pointer that is not
  set, and a copy constructor that throws leaves it so.
\<close>

lemma failed_copy_uninit:
  assumes "storage_copy_ctor_uninit E M other = Throw e (M', this)"
  shows "methods this = Garbage \<and> storage_dtor E (M', this) = UB"
proof -
  from assms have "copy E (methods other) (M, storage_uninit, other) = Throw e (M', this)"
    by (simp add: storage_copy_ctor_uninit_def)
  from copy_throw_frame [OF this] have "this = storage_uninit" by simp
  then show ?thesis by (simp add: storage_uninit_def storage_dtor_def destroy_def)
qed

text \<open>
  A copy entry that throws has not touched its destination, nor any cell that was
  allocated before. A storage whose copy constructor (function.h:49-51) throws is
  therefore as its default member initialiser made it, with the empty table, and its
  destructor returns.
\<close>

lemma failed_copy_ctor_destructible:
  "(copy E m (M, to, from) = Throw e (M', to') \<longrightarrow>
      to' = to \<and> take (length (cells M)) (cells M') = cells M)
   \<and> (storage_copy_ctor E M other = Throw e (M', this) \<longrightarrow>
      methods this = get_empty_methods \<and> obj this = Raw \<and> storage_dtor E (M', this) = Ret M')"
proof (intro conjI impI)
  assume "copy E m (M, to, from) = Throw e (M', to')"
  from copy_throw_frame [OF this]
  show "to' = to" and "take (length (cells M)) (cells M') = cells M" by simp_all
next
  assume "storage_copy_ctor E M other = Throw e (M', this)"
  then have "copy E (methods other) (M, storage_default, other) = Throw e (M', this)"
    by (simp add: storage_copy_ctor_def)
  from copy_throw_frame [OF this] have t: "this = storage_default" by simp
  show "methods this = get_empty_methods" by (simp add: t storage_default_def)
  show "obj this = Raw" by (simp add: t storage_default_def)
  show "storage_dtor E (M', this) = Ret M'" by (simp add: t storage_default_dtor)
qed

text \<open>
  C5. After a copy that fails the destination is to be safe to destroy, with no stale
  and no unset table pointer. In the assignment of function.h:57-70 the copy entry
  runs on a target that was destroyed, and the table pointer of the target is the one
  of the object that is gone. When the copy of \<open>rhs\<close> fails and the copy of \<open>temp\<close>
  back fails too, the target is left with that table pointer and the pointer to the
  freed cell, and its destructor is undefined. In the earlier storage
  (function.h:289-297) a copy constructor that fails leaves the table pointer unset.
\<close>

theorem failed_copy_leaves_stale_table:
  "storage_copy_assign counters
      (\<lparr>cells = [Some (large_counter 3), Some (large_counter 4)], plan = [True, False, False]\<rparr>,
       \<lparr>obj = Ptr 0, methods = LargeTab 1\<rparr>)
      (Other \<lparr>obj = Ptr 1, methods = LargeTab 1\<rparr>)
    = Throw bad_alloc
        (mem_of [None, Some (large_counter 4), None], \<lparr>obj = Ptr 0, methods = LargeTab 1\<rparr>)
   \<and> load 1 (mem_of [None, Some (large_counter 4), None]) 0 = None
   \<and> storage_dtor counters
        (mem_of [None, Some (large_counter 4), None], \<lparr>obj = Ptr 0, methods = LargeTab 1\<rparr>) = UB
   \<and> storage_copy_ctor_uninit counters \<lparr>cells = [Some (large_counter 3)], plan = [False]\<rparr>
        \<lparr>obj = Ptr 0, methods = LargeTab 1\<rparr>
    = Throw bad_alloc (mem_of [Some (large_counter 3)], \<lparr>obj = Raw, methods = Garbage\<rparr>)
   \<and> storage_dtor counters (mem_of [Some (large_counter 3)], \<lparr>obj = Raw, methods = Garbage\<rparr>)
    = UB"
  by (simp add: run_defs storage_uninit_def storage_copy_ctor_uninit_def)

lemma target_mismatch:
  "methods (stg c) \<noteq> get_methods E T \<Longrightarrow> function_target E c T = Null"
  by (auto simp: function_target_def)

lemma target_match:
  "methods (stg c) = get_methods E T \<Longrightarrow> held M (stg c) = Some x \<Longrightarrow>
   function_target E c T \<noteq> Null \<and> function_target E c T \<noteq> Indeterminate
   \<and> pointee T (M, c) (function_target E c T) = Some x"
  by (auto simp: function_target_def held_def pointee_def get_methods_def
      split: if_splits option.splits)

lemma get_methods_inj: "get_methods E T = get_methods E U \<Longrightarrow> T = U"
  by (auto simp: get_methods_def split: if_splits)

lemma get_methods_not_empty: "get_methods E T \<noteq> get_empty_methods"
  by (simp add: get_methods_def get_empty_methods_def)

text \<open>
  C6. For a container that is empty or holds a callable \<open>x\<close>, \<open>target<T>()\<close> is
  not null exactly when the table pointer is the table of \<open>T\<close>, and then it points to
  \<open>x\<close>. After construction from \<open>f\<close> the target for the type of \<open>f\<close> points to
  \<open>f\<close> and the target for any other type is null; a default-constructed container
  has a null target for every type.
\<close>

theorem target_by_table_identity:
  "(methods (stg c) = get_empty_methods \<or> held M (stg c) = Some x \<longrightarrow>
      (function_target E c T \<noteq> Null \<longleftrightarrow> methods (stg c) = get_methods E T)
      \<and> (methods (stg c) = get_methods E T \<longrightarrow>
           function_target E c T \<noteq> Indeterminate
           \<and> pointee T (M, c) (function_target E c T) = Some x))
   \<and> (function_ctor E M0 how f = Ret (M1, d) \<longrightarrow>
        pointee (ty f) (M1, d) (function_target E d (ty f)) = Some f
        \<and> (U \<noteq> ty f \<longrightarrow> function_target E d U = Null))
   \<and> function_target E function_default T = Null"
proof (intro conjI impI)
  assume w: "methods (stg c) = get_empty_methods \<or> held M (stg c) = Some x"
  show "function_target E c T \<noteq> Null \<longleftrightarrow> methods (stg c) = get_methods E T"
  proof
    assume "function_target E c T \<noteq> Null"
    then show "methods (stg c) = get_methods E T" using target_mismatch by blast
  next
    assume m: "methods (stg c) = get_methods E T"
    with w get_methods_not_empty [of E T] have "held M (stg c) = Some x" by auto
    from target_match [OF m this] show "function_target E c T \<noteq> Null" by simp
  qed
  assume m: "methods (stg c) = get_methods E T"
  with w get_methods_not_empty [of E T] have "held M (stg c) = Some x" by auto
  from target_match [OF m this]
  show "function_target E c T \<noteq> Indeterminate"
    and "pointee T (M, c) (function_target E c T) = Some x" by simp_all
next
  assume k: "function_ctor E M0 how f = Ret (M1, d)"
  from target_match [OF ctor_methods [OF k] ctor_held [OF k]]
  show "pointee (ty f) (M1, d) (function_target E d (ty f)) = Some f" by simp
  assume "U \<noteq> ty f"
  with get_methods_inj [of E "ty f" U] have "methods (stg d) \<noteq> get_methods E U"
    by (auto simp: ctor_methods [OF k])
  then show "function_target E d U = Null" by (rule target_mismatch)
next
  show "function_target E function_default T = Null"
    by (simp add: function_target_def function_default_def storage_default_def get_methods_def
        get_empty_methods_def)
qed

theorem target_by_table_identity_witness:
  "function_ctor counters mem0 Lvalue (small_counter 4) =
     Ret (mem0, \<lparr>stg = \<lparr>obj = Obj (small_counter 4), methods = SmallTab 0\<rparr>\<rparr>)
   \<and> function_target counters \<lparr>stg = \<lparr>obj = Obj (small_counter 4), methods = SmallTab 0\<rparr>\<rparr> 0 = InBuffer
   \<and> pointee 0 (mem0, \<lparr>stg = \<lparr>obj = Obj (small_counter 4), methods = SmallTab 0\<rparr>\<rparr>) InBuffer
       = Some (small_counter 4)
   \<and> function_target counters \<lparr>stg = \<lparr>obj = Obj (small_counter 4), methods = SmallTab 0\<rparr>\<rparr> 1 = Null"
proof -
  have k: "function_ctor counters mem0 Lvalue (small_counter 4) =
     Ret (mem0, \<lparr>stg = \<lparr>obj = Obj (small_counter 4), methods = SmallTab 0\<rparr>\<rparr>)"
    by (simp add: run_defs)
  have t: "function_target counters \<lparr>stg = \<lparr>obj = Obj (small_counter 4), methods = SmallTab 0\<rparr>\<rparr> 0
       = InBuffer"
    by (simp add: run_defs)
  have u: "(1::nat) \<noteq> ty (small_counter 4)" "ty (small_counter 4) = 0"
    by (simp_all add: small_counter_def)
  note a = target_by_table_identity [THEN conjunct2, THEN conjunct1, rule_format, OF k]
  from a [THEN conjunct1] a [THEN conjunct2, rule_format, OF u(1)] t u(2) k
  show ?thesis by simp
qed

text \<open>
  C8. Swapping twice gives back both containers as they were, for the member
  \<^verbatim>\<open>swap\<close> of the storage and for that of the container. One swap leaves each
  side with exactly the buffer and table pointer of the other, and touches no memory:
  nothing is dropped and nothing is owned twice.
\<close>

theorem swap_twice_restores:
  "storage_swap (storage_swap (a, b)) = (a, b)
   \<and> storage_swap (a, b) = (b, a)
   \<and> function_swap (function_swap (f, g)) = (f, g)
   \<and> function_swap (f, g) = (g, f)"
  by (simp add: storage_swap_def function_swap_def)

lemma copy_ret_cases:
  assumes "copy E m (M, to, from) = Ret (M', to')"
  shows "(m = EmptyTab \<and> M' = M \<and> to' = to\<lparr>methods := methods from\<rparr>)
     \<or> (\<exists>T x. m = SmallTab T \<and> get_small_obj T from = Some x \<and> M' = M
            \<and> to' = to\<lparr>obj := Obj x, methods := methods from\<rparr>)
     \<or> (\<exists>T p x. m = LargeTab T \<and> get_large_obj from = Some p \<and> load T M p = Some x
            \<and> M' = M\<lparr>cells := cells M @ [Some x], plan := tl (plan M)\<rparr>
            \<and> to' = to\<lparr>obj := Ptr (length (cells M)), methods := methods from\<rparr>)"
proof (cases m)
  case Garbage
  with assms show ?thesis by (simp add: copy_def)
next
  case EmptyTab
  with assms show ?thesis by (auto simp: copy_def)
next
  case (LargeTab T)
  with assms show ?thesis
    by (simp add: copy_def new_copy_def split: option.splits if_splits) 
next
  case (SmallTab T)
  with assms show ?thesis
    by (simp add: copy_def split: option.splits) 
qed

lemma load_less: "load T M p = Some x \<Longrightarrow> p < length (cells M) \<and> cells M ! p = Some x \<and> ty x = T"
  by (auto simp: load_def split: if_splits option.splits)

lemma load_append:
  "load T M p = Some x \<Longrightarrow> load T (M\<lparr>cells := cells M @ ys, plan := pl\<rparr>) p = Some x"
  by (auto simp: load_def nth_append split: if_splits option.splits)

lemma load_new:
  "load T (M\<lparr>cells := cells M @ [Some x], plan := pl\<rparr>) (length (cells M)) =
     (if ty x = T then Some x else None)"
  by (simp add: load_def)


lemma get_small_obj_ty: "get_small_obj T s = Some x \<Longrightarrow> obj s = Obj x \<and> ty x = T"
  by (auto simp: get_small_obj_def split: buf.splits if_splits)

lemma storage_copy_ctor_held:
  assumes "storage_copy_ctor E M s = Ret (M1, d)"
  shows "held M1 d = held M s \<and> held M1 s = held M s \<and> methods d = methods s
     \<and> (\<forall>p. get_large_obj d = Some p \<longrightarrow> get_large_obj s \<noteq> Some p)"
proof -
  from assms have "copy E (methods s) (M, storage_default, s) = Ret (M1, d)"
    by (simp add: storage_copy_ctor_def)
  from copy_ret_cases [OF this] consider
    (empty) "methods s = EmptyTab" "M1 = M" "d = storage_default\<lparr>methods := methods s\<rparr>"
  | (small) T x where "methods s = SmallTab T" "get_small_obj T s = Some x" "M1 = M"
      "d = storage_default\<lparr>obj := Obj x, methods := methods s\<rparr>"
  | (large) T p x where "methods s = LargeTab T" "get_large_obj s = Some p" "load T M p = Some x"
      "M1 = M\<lparr>cells := cells M @ [Some x], plan := tl (plan M)\<rparr>"
      "d = storage_default\<lparr>obj := Ptr (length (cells M)), methods := methods s\<rparr>"
    by blast
  then show ?thesis
  proof cases
    case empty
    then show ?thesis by (simp add: held_def get_large_obj_def storage_default_def)
  next
    case small
    from get_small_obj_ty [OF small(2)] small show ?thesis
      by (simp add: held_def get_small_obj_def get_large_obj_def)
  next
    case large
    from load_less [OF large(3)] have l: "p < length (cells M)" "ty x = T" by simp_all
    from large l show ?thesis
      by (simp add: held_def get_large_obj_def load_new load_append)
  qed
qed

lemma result_of_call:
  "result_of (function_call E (M, c) args) =
     (case methods (stg c) of
        EmptyTab \<Rightarrow> Some (Inl bad_function_call)
      | Garbage \<Rightarrow> None
      | _ \<Rightarrow> (case held M (stg c) of
                None \<Rightarrow> None
              | Some x \<Rightarrow> Some (fst (entry_call E (methods (stg c)) x args))))"
proof (cases "methods (stg c)")
  case Garbage
  then show ?thesis by (simp add: function_call_def invoke_def result_of_def)
next
  case EmptyTab
  then show ?thesis by (simp add: function_call_def invoke_def result_of_def)
next
  case (LargeTab T)
  then show ?thesis
    by (simp add: function_call_def invoke_def result_of_def held_def finish_call_def entry_call_def
        split: option.splits prod.splits sum.splits)
next
  case (SmallTab T)
  then show ?thesis
    by (simp add: function_call_def invoke_def result_of_def held_def finish_call_def entry_call_def
        split: option.splits prod.splits sum.splits)
qed

lemma invoke_mem:
  assumes "invoke E m (M, s) args = Ret (r, M', s') \<or> invoke E m (M, s) args = Throw e (M', s')"
  shows "M' = M \<or> (\<exists>p x'. get_large_obj s = Some p \<and> M' = M\<lparr>cells := (cells M)[p := Some x']\<rparr>)"
proof (cases m)
  case Garbage
  with assms show ?thesis by (simp add: invoke_def)
next
  case EmptyTab
  with assms show ?thesis by (auto simp: invoke_def)
next
  case (LargeTab T)
  with assms show ?thesis
    by (auto simp: invoke_def finish_call_def split: option.splits prod.splits sum.splits)
next
  case (SmallTab T)
  with assms show ?thesis
    by (auto simp: invoke_def finish_call_def split: option.splits prod.splits sum.splits)
qed

lemma held_update_other:
  "get_large_obj s \<noteq> Some p \<Longrightarrow> held (M\<lparr>cells := (cells M)[p := v]\<rparr>) s = held M s"
  by (auto simp: held_def load_def get_large_obj_def split: mptr.splits buf.splits option.splits)


text \<open>
  The copy-and-swap assignment of the earlier storage (function.h:303-308) can only
  throw while it copies \<open>rhs\<close> into the temporary; the target and every cell
  allocated before are then as they were.
\<close>

lemma copy_assign_swap_strong:
  assumes "storage_copy_assign_swap E (M, this) rhs = Throw e (M', this')"
  shows "this' = this \<and> take (length (cells M)) (cells M') = cells M"
proof (cases rhs)
  case This
  with assms show ?thesis by (simp add: storage_copy_assign_swap_def)
next
  case (Other r)
  show ?thesis
  proof (cases "storage_copy_ctor_uninit E M r")
    case (Ret x)
    obtain M1 temp where x: "x = (M1, temp)" by (cases x)
    with Ret Other assms show ?thesis
      by (simp add: storage_copy_assign_swap_def storage_swap_def end_of_scope_def
          split: outcome.splits)
  next
    case (Throw e1 y)
    obtain M1 t where y: "y = (M1, t)" by (cases y)
    from Throw y have "copy E (methods r) (M, storage_uninit, r) = Throw e1 (M1, t)"
      by (simp add: storage_copy_ctor_uninit_def)
    from copy_throw_frame [OF this] have "take (length (cells M)) (cells M1) = cells M" by simp
    with Throw y Other assms show ?thesis
      by (simp add: storage_copy_assign_swap_def)
  next
    case Terminate
    with Other assms show ?thesis by (simp add: storage_copy_assign_swap_def)
  next
    case UB
    with Other assms show ?thesis by (simp add: storage_copy_assign_swap_def)
  qed
qed

text \<open>
  C2. Copy assignment is to leave the target unchanged when copying \<open>rhs\<close> throws.
  The assignment of function.h:57-70 destroys the target first and copies its saved
  value back when the copy of \<open>rhs\<close> throws. When that second copy throws as well
  (here: the allocation for \<open>temp\<close> succeeds, the next two fail), the exception
  leaves with the target still pointing, under its old table, at the cell that was
  freed: the target no longer holds its callable, and calling or destroying it is
  undefined.
\<close>

theorem copy_assign_rollback_window:
  "held \<lparr>cells = [Some (large_counter 5), Some (large_counter 7)], plan = [True, False, False]\<rparr>
        (stg (large_fn 0)) = Some (large_counter 5)
   \<and> function_copy_assign counters
        (\<lparr>cells = [Some (large_counter 5), Some (large_counter 7)], plan = [True, False, False]\<rparr>,
         large_fn 0) (Other (large_fn 1))
      = Throw bad_alloc (mem_of [None, Some (large_counter 7), None], large_fn 0)
   \<and> held (mem_of [None, Some (large_counter 7), None]) (stg (large_fn 0)) = None
   \<and> function_call counters (mem_of [None, Some (large_counter 7), None], large_fn 0) () = UB
   \<and> function_dtor counters (mem_of [None, Some (large_counter 7), None], large_fn 0) = UB"
  by (simp add: run_defs)

text \<open>
  No exception leaves a move entry or a destroy entry, a destroy entry never ends the
  program, and a type classified small has a move constructor that does not throw.
\<close>

lemma move_destroy_no_exception:
  "move E m st \<noteq> Throw e y \<and> destroy E m sd \<noteq> Throw e' y' \<and> destroy E m sd \<noteq> Terminate
   \<and> (is_small_v E T \<longrightarrow> is_nothrow_move_constructible E T)"
proof (intro conjI)
  show "move E m st \<noteq> Throw e y"
    by (cases m) (auto simp: move_def split: prod.splits option.splits)
  show "destroy E m sd \<noteq> Throw e' y'"
    by (cases m) (auto simp: destroy_def split: prod.splits option.splits)
  show "destroy E m sd \<noteq> Terminate"
    by (cases m) (auto simp: destroy_def split: prod.splits option.splits)
  show "is_small_v E T \<longrightarrow> is_nothrow_move_constructible E T"
    by (simp add: is_small_v_def)
qed

text \<open>
  C7. The move entries are to never fail. The small entry copy-constructs its
  destination, from the reference to \<^verbatim>\<open>const\<close> that \<^verbatim>\<open>get_small_obj\<close> returns. For a
  type that is classified small (its move constructor is \<^verbatim>\<open>noexcept\<close>) and whose copy
  constructor throws, the exception meets the \<^verbatim>\<open>noexcept\<close> of the entry: moving a
  container that holds such a callable ends the program.
\<close>

theorem move_entry_copy_terminates:
  "is_small_v owners 0 \<and> is_nothrow_move_constructible owners 0
   \<and> function_ctor owners mem0 Prvalue \<lparr>ty = 0, state = 7\<rparr> = Ret (mem0, owner_fn 7)
   \<and> get_methods owners 0 = SmallTab 0
   \<and> move owners (SmallTab 0) (mem0, storage_default, stg (owner_fn 7)) = Terminate
   \<and> function_move_ctor owners mem0 (owner_fn 7) = Terminate"
  by (simp add: run_defs)

text \<open>
  C4, as the code has it. The claim says that after \<open>e = move(c)\<close> the source is
  empty for small and for large types. The small table's move entry
  (function.h:168-171) leaves the source's table pointer alone: the source of a small
  counter still answers calls.
\<close>

theorem move_small_source_not_empty:
  "function_move_ctor counters mem0 (small_fn 0) = Ret (mem0, small_fn 0, small_fn 0)
   \<and> function_bool (small_fn 0)
   \<and> function_call counters (mem0, small_fn 0) () = Ret (1, mem0, small_fn 1)"
  by (simp add: run_defs)

lemma held_small:
  "held M s = Some x \<Longrightarrow> methods s = SmallTab T \<Longrightarrow> obj s = Obj x \<and> ty x = T"
  by (auto simp: held_def dest: get_small_obj_ty)

lemma move_ctor_small:
  assumes "held M (stg c) = Some x" and "methods (stg c) = SmallTab T"
  shows "function_move_ctor E M c =
     (case copy_construct E x of
        Some e \<Rightarrow> Terminate
      | None \<Rightarrow> Ret (M, \<lparr>stg = storage_default\<lparr>methods := SmallTab T, obj := Obj x\<rparr>\<rparr>, c))"
proof -
  from held_small [OF assms] have o: "obj (stg c) = Obj x" and t: "ty x = T" by simp_all
  with assms(2) show ?thesis
    by (simp add: function_move_ctor_def storage_move_ctor_def move_def get_small_obj_def
        split: option.splits)
qed

lemma move_ctor_large:
  assumes "methods (stg c) = LargeTab T"
  shows "function_move_ctor E M c =
     Ret (M, \<lparr>stg = storage_default\<lparr>obj := obj (stg c), methods := LargeTab T\<rparr>\<rparr>,
          c\<lparr>stg := (stg c)\<lparr>methods := get_empty_methods\<rparr>\<rparr>)"
  using assms by (simp add: function_move_ctor_def storage_move_ctor_def move_def)

lemma move_ctor_effect:
  assumes h: "held M (stg c) = Some x" and g: "methods (stg c) = get_methods E T"
    and k: "function_move_ctor E M c = Ret (M', e, c')"
  shows "M' = M
     \<and> result_of (function_call E (M', e) args) = result_of (function_call E (M, c) args)
     \<and> (\<not> is_small_v E T \<longrightarrow>
          \<not> function_bool c'
          \<and> function_call E (M', c') args = Throw bad_function_call (M', c'))
     \<and> (is_small_v E T \<longrightarrow>
          function_bool c' \<and> methods (stg c') = methods (stg c) \<and> held M' (stg c') \<noteq> None)"
proof (cases "is_small_v E T")
  case True
  with g have m: "methods (stg c) = SmallTab T" by (simp add: get_methods_def)
  from held_small [OF h m] have t: "ty x = T" by simp
  let ?e = "\<lparr>stg = storage_default\<lparr>methods := SmallTab T, obj := Obj x\<rparr>\<rparr>"
  from k move_ctor_small [OF h m, of E]
  have r: "M' = M" "e = ?e" "c' = c" by (simp_all split: option.splits)
  have he: "held M (stg ?e) = Some x" using t by (simp add: held_def get_small_obj_def)
  have 2: "result_of (function_call E (M, ?e) args) = result_of (function_call E (M, c) args)"
    using h he m by (simp add: result_of_call)
  have 3: "function_bool c" using m by (simp add: function_bool_def get_empty_methods_def)
  from r 2 3 h True show ?thesis by simp
next
  case False
  with g have m: "methods (stg c) = LargeTab T" by (simp add: get_methods_def)
  let ?e = "\<lparr>stg = storage_default\<lparr>obj := obj (stg c), methods := LargeTab T\<rparr>\<rparr>"
  let ?c = "c\<lparr>stg := (stg c)\<lparr>methods := get_empty_methods\<rparr>\<rparr>"
  from k move_ctor_large [OF m, of E M]
  have r: "M' = M" "e = ?e" "c' = ?c" by simp_all
  have he: "held M (stg ?e) = Some x" using h m by (simp add: held_def get_large_obj_def)
  have 2: "result_of (function_call E (M, ?e) args) = result_of (function_call E (M, c) args)"
    using h he m by (simp add: result_of_call)
  have 3: "\<not> function_bool ?c" by (simp add: function_bool_def)
  have 4: "function_call E (M, ?c) args = Throw bad_function_call (M, ?c)"
    by (simp add: function_call_def invoke_def get_empty_methods_def)
  from r 2 3 4 False show ?thesis by simp
qed

lemma move_ctor_returns:
  assumes h: "held M (stg c) = Some x" and g: "methods (stg c) = get_methods E T"
    and n: "\<not> is_small_v E T \<or> copy_construct E x = None"
  shows "\<exists>e c'. function_move_ctor E M c = Ret (M, e, c')"
proof (cases "is_small_v E T")
  case True
  with g have m: "methods (stg c) = SmallTab T" by (simp add: get_methods_def)
  from True n have "copy_construct E x = None" by simp
  with move_ctor_small [OF h m, of E] show ?thesis by simp
next
  case False
  with g have m: "methods (stg c) = LargeTab T" by (simp add: get_methods_def)
  from move_ctor_large [OF m, of E M] show ?thesis by simp
qed

text \<open>
  C4, amended. Let \<open>c\<close> hold \<open>x\<close> under the table generated for its type. Move
  construction returns if the type is large; if it is small, it returns when copying
  \<open>x\<close> does not throw. When it returns, the new container gives on a call what \<open>c\<close>
  would have given. If the type is large, \<open>c\<close> is empty afterwards and a call of it
  throws \<^verbatim>\<open>bad_function_call\<close>. If the type is small, \<open>c\<close> keeps its table pointer
  and still holds a callable.
\<close>

theorem move_ctor_transfers:
  "held M (stg c) = Some x \<and> methods (stg c) = get_methods E T \<longrightarrow>
     (\<not> is_small_v E T \<or> copy_construct E x = None \<longrightarrow>
        (\<exists>e c'. function_move_ctor E M c = Ret (M, e, c')))
     \<and> (function_move_ctor E M c = Ret (M', e, c') \<longrightarrow>
          M' = M
          \<and> result_of (function_call E (M', e) args) = result_of (function_call E (M, c) args)
          \<and> (\<not> is_small_v E T \<longrightarrow>
               \<not> function_bool c'
               \<and> function_call E (M', c') args = Throw bad_function_call (M', c'))
          \<and> (is_small_v E T \<longrightarrow>
               function_bool c' \<and> methods (stg c') = methods (stg c)
               \<and> held M' (stg c') \<noteq> None))"
proof (intro impI conjI; (elim conjE)?)
  assume "held M (stg c) = Some x" "methods (stg c) = get_methods E T"
    "\<not> is_small_v E T \<or> copy_construct E x = None"
  then show "\<exists>e c'. function_move_ctor E M c = Ret (M, e, c')" by (rule move_ctor_returns)
next
  assume a: "held M (stg c) = Some x" "methods (stg c) = get_methods E T"
    "function_move_ctor E M c = Ret (M', e, c')"
  note f = move_ctor_effect [OF a, of args]
  from f show "M' = M" by blast
  from f show "result_of (function_call E (M', e) args) = result_of (function_call E (M, c) args)"
    by blast
  { assume "\<not> is_small_v E T"
    with f show "\<not> function_bool c'"
      and "function_call E (M', c') args = Throw bad_function_call (M', c')" by blast+ }
  { assume "is_small_v E T"
    with f show "function_bool c'" and "methods (stg c') = methods (stg c)"
      and "held M' (stg c') \<noteq> None" by blast+ }
qed

theorem move_ctor_transfers_witness:
  "held (mem_of [Some (large_counter 2)]) (stg (large_fn 0)) = Some (large_counter 2)
   \<and> methods (stg (large_fn 0)) = get_methods counters 1
   \<and> \<not> is_small_v counters 1
   \<and> function_move_ctor counters (mem_of [Some (large_counter 2)]) (large_fn 0)
       = Ret (mem_of [Some (large_counter 2)], large_fn 0, \<lparr>stg = \<lparr>obj = Ptr 0, methods = EmptyTab\<rparr>\<rparr>)
   \<and> result_of (function_call counters (mem_of [Some (large_counter 2)], large_fn 0) ())
       = Some (Inr 3)
   \<and> \<not> function_bool (\<lparr>stg = \<lparr>obj = Ptr 0, methods = EmptyTab\<rparr>\<rparr> :: int func)
   \<and> function_call counters
         (mem_of [Some (large_counter 2)], \<lparr>stg = \<lparr>obj = Ptr 0, methods = EmptyTab\<rparr>\<rparr>) ()
       = Throw bad_function_call
           (mem_of [Some (large_counter 2)], \<lparr>stg = \<lparr>obj = Ptr 0, methods = EmptyTab\<rparr>\<rparr>)"
proof -
  have h: "held (mem_of [Some (large_counter 2)]) (stg (large_fn 0)) = Some (large_counter 2)"
    by (simp add: run_defs)
  have g: "methods (stg (large_fn 0)) = get_methods counters 1"
    by (simp add: run_defs)
  have n: "\<not> is_small_v counters 1"
    by (simp add: run_defs)
  have k: "function_move_ctor counters (mem_of [Some (large_counter 2)]) (large_fn 0)
       = Ret (mem_of [Some (large_counter 2)], large_fn 0, \<lparr>stg = \<lparr>obj = Ptr 0, methods = EmptyTab\<rparr>\<rparr>)"
    by (simp add: run_defs)
  have r: "result_of (function_call counters (mem_of [Some (large_counter 2)], large_fn 0) ())
       = Some (Inr 3)"
    by (simp add: run_defs)
  note t = move_ctor_transfers [rule_format, OF conjI [OF h g], THEN conjunct2, rule_format, OF k,
      of "()"]
  note u = t [THEN conjunct2, THEN conjunct2, THEN conjunct1, rule_format, OF n]
  from h g n k r u show ?thesis by blast
qed

text \<open>How the destroy entries, the destructor and the assignment come to return.\<close>

lemma destroy_ret_cases:
  assumes "destroy E m (M, s) = Ret (M', s')"
  shows "(m = EmptyTab \<and> M' = M \<and> s' = s)
     \<or> (\<exists>T x. m = SmallTab T \<and> get_small_obj T s = Some x \<and> M' = M \<and> s' = s\<lparr>obj := Raw\<rparr>)
     \<or> (\<exists>T p x. m = LargeTab T \<and> get_large_obj s = Some p \<and> load T M p = Some x
            \<and> M' = M\<lparr>cells := (cells M)[p := None]\<rparr> \<and> s' = s)"
proof (cases m)
  case Garbage
  with assms show ?thesis by (simp add: destroy_def)
next
  case EmptyTab
  with assms show ?thesis by (auto simp: destroy_def)
next
  case (LargeTab T)
  with assms show ?thesis
    by (auto simp: destroy_def delete_obj_def split: option.splits)
next
  case (SmallTab T)
  with assms show ?thesis
    by (auto simp: destroy_def split: option.splits)
qed

lemma storage_dtor_ret:
  "storage_dtor E (M, s) = Ret M' \<Longrightarrow> \<exists>s'. destroy E (methods s) (M, s) = Ret (M', s')"
  by (auto simp: storage_dtor_def split: outcome.splits)

lemma end_of_scope_ret:
  "end_of_scope E temp out = Ret (M1, d) \<Longrightarrow>
   \<exists>Mc. out = Ret (Mc, d) \<and> storage_dtor E (Mc, temp) = Ret M1"
  by (auto simp: end_of_scope_def split: outcome.splits)

lemma storage_copy_assign_ret:
  assumes "storage_copy_assign E (M, this) (Other r) = Ret (M1, d)"
  shows "\<exists>Ma temp Mb this2 Mc.
           storage_copy_ctor E M this = Ret (Ma, temp)
         \<and> destroy E (methods this) (Ma, this) = Ret (Mb, this2)
         \<and> copy E (methods r) (Mb, this2, r) = Ret (Mc, d)
         \<and> storage_dtor E (Mc, temp) = Ret M1"
proof (cases "storage_copy_ctor E M this")
  case (Ret a)
  obtain Ma temp where a: "a = (Ma, temp)" by (cases a)
  from assms Ret a have e: "end_of_scope E temp
      (case destroy E (methods this) (Ma, this) of
         Ret (M2, this2) \<Rightarrow>
           (case copy E (methods r) (M2, this2, r) of
              Throw e (M3, this3) \<Rightarrow>
                (case copy E (methods temp) (M3, this3, temp) of
                   Ret (M4, this4) \<Rightarrow> Throw e (M4, this4)
                 | failed \<Rightarrow> failed)
            | done \<Rightarrow> done)
       | failed \<Rightarrow> failed) = Ret (M1, d)"
    by (simp add: storage_copy_assign_def)
  from end_of_scope_ret [OF e] obtain Mc where
    o: "(case destroy E (methods this) (Ma, this) of
         Ret (M2, this2) \<Rightarrow>
           (case copy E (methods r) (M2, this2, r) of
              Throw e (M3, this3) \<Rightarrow>
                (case copy E (methods temp) (M3, this3, temp) of
                   Ret (M4, this4) \<Rightarrow> Throw e (M4, this4)
                 | failed \<Rightarrow> failed)
            | done \<Rightarrow> done)
       | failed \<Rightarrow> failed) = Ret (Mc, d)"
    and t: "storage_dtor E (Mc, temp) = Ret M1" by blast
  from o obtain Mb this2 where b: "destroy E (methods this) (Ma, this) = Ret (Mb, this2)"
    by (cases "destroy E (methods this) (Ma, this)") auto
  from o b have c: "copy E (methods r) (Mb, this2, r) = Ret (Mc, d)"
    by (cases "copy E (methods r) (Mb, this2, r)") (auto split: outcome.splits)
  from Ret a b c t show ?thesis by blast
next
  case (Throw e y)
  with assms show ?thesis by (cases y) (simp add: storage_copy_assign_def)
next
  case Terminate
  with assms show ?thesis by (simp add: storage_copy_assign_def)
next
  case UB
  with assms show ?thesis by (simp add: storage_copy_assign_def)
qed

lemma copy_ctor_mem:
  assumes "storage_copy_ctor E M s = Ret (Ma, temp)"
  shows "(Ma = M \<and> get_large_obj temp = None)
     \<or> (\<exists>y. Ma = M\<lparr>cells := cells M @ [Some y], plan := tl (plan M)\<rparr>
            \<and> get_large_obj temp = Some (length (cells M)))"
proof -
  from assms have "copy E (methods s) (M, storage_default, s) = Ret (Ma, temp)"
    by (simp add: storage_copy_ctor_def)
  from copy_ret_cases [OF this] show ?thesis
    by (auto simp: get_large_obj_def storage_default_def)
qed

lemma destroy_mem:
  assumes "destroy E m (M, s) = Ret (M', s')"
  shows "M' = M \<or> (\<exists>q. get_large_obj s = Some q \<and> M' = M\<lparr>cells := (cells M)[q := None]\<rparr>)"
  using destroy_ret_cases [OF assms] by auto

lemma held_large:
  "held M s = Some x \<Longrightarrow> methods s = LargeTab T \<Longrightarrow>
   \<exists>p. get_large_obj s = Some p \<and> load T M p = Some x"
  by (auto simp: held_def split: option.splits)

text \<open>
  After an assignment from \<open>r\<close> that returned, the target holds what \<open>r\<close> holds, in
  a cell of its own when the type is large.
\<close>

lemma storage_copy_assign_held:
  assumes k: "storage_copy_assign E (M, this) (Other r) = Ret (M1, d)"
    and h: "held M r = Some x"
  shows "held M1 d = Some x \<and> held M1 r = Some x \<and> methods d = methods r
     \<and> (\<forall>p. get_large_obj d = Some p \<longrightarrow> get_large_obj r \<noteq> Some p)"
proof -
  from storage_copy_assign_ret [OF k] obtain Ma temp Mb this2 Mc where
    i: "storage_copy_ctor E M this = Ret (Ma, temp)"
    and ii: "destroy E (methods this) (Ma, this) = Ret (Mb, this2)"
    and iii: "copy E (methods r) (Mb, this2, r) = Ret (Mc, d)"
    and iv: "storage_dtor E (Mc, temp) = Ret M1" by blast
  from storage_dtor_ret [OF iv] obtain s' where
    iv': "destroy E (methods temp) (Mc, temp) = Ret (M1, s')" by blast
  from copy_ret_cases [OF iii] consider
    (empty) "methods r = EmptyTab"
  | (small) T y where "methods r = SmallTab T" "get_small_obj T r = Some y"
      "d = this2\<lparr>obj := Obj y, methods := methods r\<rparr>"
  | (large) T p y where "methods r = LargeTab T" "get_large_obj r = Some p" "load T Mb p = Some y"
      "Mc = Mb\<lparr>cells := cells Mb @ [Some y], plan := tl (plan Mb)\<rparr>"
      "d = this2\<lparr>obj := Ptr (length (cells Mb)), methods := methods r\<rparr>"
    by blast
  then show ?thesis
  proof cases
    case empty
    with h show ?thesis by (simp add: held_def)
  next
    case small
    from h small(1,2) have "y = x" by (simp add: held_def)
    with small h get_small_obj_ty [OF small(2)] show ?thesis
      by (simp add: held_def get_small_obj_def get_large_obj_def)
  next
    case large
    let ?L = "length (cells M)"
    from held_large [OF h large(1)] large(2) have lx: "load T M p = Some x" by simp
    from load_less [OF lx] have pL: "p < ?L" and cx: "cells M ! p = Some x" and tx: "ty x = T"
      by simp_all
    from load_less [OF large(3)] have pb: "p < length (cells Mb)" and cy: "cells Mb ! p = Some y"
      by simp_all
    from copy_ctor_mem [OF i] have a:
      "(cells Ma = cells M \<and> get_large_obj temp = None)
       \<or> (\<exists>z. cells Ma = cells M @ [Some z] \<and> get_large_obj temp = Some ?L)"
      by auto
    from destroy_mem [OF ii] have b:
      "cells Mb = cells Ma \<or> (\<exists>q. cells Mb = (cells Ma)[q := None])" by auto
    from b have lenb: "length (cells Mb) = length (cells Ma)" by auto
    have ca: "cells Ma ! p = Some y"
    proof -
      from b show ?thesis
      proof
        assume "cells Mb = cells Ma"
        with cy show ?thesis by simp
      next
        assume "\<exists>q. cells Mb = (cells Ma)[q := None]"
        then obtain q where q: "cells Mb = (cells Ma)[q := None]" by blast
        with cy pb have "q \<noteq> p" by (cases "q = p") simp_all
        with cy q show ?thesis by simp
      qed
    qed
    from a ca pL cx have yx: "y = x" by (auto simp: nth_append)
    from destroy_mem [OF iv'] have c:
      "M1 = Mc \<or> (\<exists>t. get_large_obj temp = Some t \<and> M1 = Mc\<lparr>cells := (cells Mc)[t := None]\<rparr>)" .
    from a c lenb have m1: "cells M1 = cells Mc
       \<or> (length (cells Mb) = Suc ?L \<and> cells M1 = (cells Mc)[?L := None])"
      by auto
    have cc: "cells Mc = cells Mb @ [Some x]" using large(4) yx by simp
    have r1: "load T M1 p = Some x"
      using m1 cc pb pL cy yx tx by (auto simp: load_def nth_append)
    have d1: "load T M1 (length (cells Mb)) = Some x"
      using m1 cc tx by (auto simp: load_def nth_append)
    from r1 d1 large pb show ?thesis
      by (simp add: held_def get_large_obj_def)
  qed
qed

lemma function_copy_ctor_storage:
  "function_copy_ctor E M c = Ret (M1, d) \<Longrightarrow> storage_copy_ctor E M (stg c) = Ret (M1, stg d)"
  by (auto simp: function_copy_ctor_def split: outcome.splits)

lemma function_copy_assign_storage:
  "function_copy_assign E (M, d0) (Other c) = Ret (M1, d) \<Longrightarrow>
   storage_copy_assign E (M, stg d0) (Other (stg c)) = Ret (M1, stg d)"
  by (auto simp: function_copy_assign_def split: outcome.splits)

text \<open>
  When \<open>d\<close> holds in \<open>M1\<close> what \<open>c\<close> held in \<open>M\<close>, under the same table, and
  \<open>c\<close> still holds it in \<open>M1\<close>, and their buffers do not hold the same pointer, then
  \<open>d\<close> answers as \<open>c\<close> did and a call of \<open>d\<close> leaves what \<open>c\<close> holds alone.
\<close>

lemma separate_copy_independent:
  assumes h: "held M1 (stg d) = held M (stg c) \<and> held M1 (stg c) = held M (stg c)
       \<and> methods (stg d) = methods (stg c)
       \<and> (\<forall>p. get_large_obj (stg d) = Some p \<longrightarrow> get_large_obj (stg c) \<noteq> Some p)"
  shows "result_of (function_call E (M1, d) args) = result_of (function_call E (M, c) args)
      \<and> (function_call E (M1, d) args = Ret (r, M2, d2)
           \<or> function_call E (M1, d) args = Throw e (M2, d2) \<longrightarrow>
         held M2 (stg c) = held M (stg c)
         \<and> result_of (function_call E (M2, c) args') = result_of (function_call E (M, c) args'))"
proof -
  from h have hd: "held M1 (stg d) = held M (stg c)" and md: "methods (stg d) = methods (stg c)"
    by simp_all
  have same: "result_of (function_call E (M1, d) args) = result_of (function_call E (M, c) args)"
    by (simp add: result_of_call hd md split: mptr.splits option.splits)
  have after: "held M2 (stg c) = held M (stg c)
       \<and> result_of (function_call E (M2, c) args') = result_of (function_call E (M, c) args')"
    if i: "function_call E (M1, d) args = Ret (r, M2, d2)
         \<or> function_call E (M1, d) args = Throw e (M2, d2)"
  proof -
    from invoke_mem [OF function_call_invoke [OF i]]
    have "held M2 (stg c) = held M1 (stg c)"
    proof
      assume "M2 = M1"
      then show ?thesis by simp
    next
      assume "\<exists>p x'. get_large_obj (stg d) = Some p \<and> M2 = M1\<lparr>cells := (cells M1)[p := Some x']\<rparr>"
      then obtain p x' where p: "get_large_obj (stg d) = Some p"
        and m: "M2 = M1\<lparr>cells := (cells M1)[p := Some x']\<rparr>" by blast
      from h p have "get_large_obj (stg c) \<noteq> Some p" by blast
      from held_update_other [OF this] m show ?thesis by simp
    qed
    with h have "held M2 (stg c) = held M (stg c)" by simp
    then show ?thesis by (simp add: result_of_call split: mptr.splits)
  qed
  from same after show ?thesis by blast
qed

text \<open>
  C9. A copy is independent of its original. After \<open>d\<close> is made from \<open>c\<close>, by
  copy construction or, for a \<open>c\<close> that holds a callable, by copy assignment to
  another container, a call of \<open>d\<close> gives what a call of \<open>c\<close> gives; and after \<open>d\<close>
  has been called, \<open>c\<close> still holds the callable it held and a call of \<open>c\<close> gives
  what it would have given before. The counter, small and large: two calls give 1 and
  2, the container is copied, and the third call gives 3 in the copy and 3 in the
  original.
\<close>

theorem copies_independent:
  "(function_copy_ctor E M c = Ret (M1, d) \<or>
    (held M (stg c) = Some x \<and> function_copy_assign E (M, d0) (Other c) = Ret (M1, d)) \<longrightarrow>
      result_of (function_call E (M1, d) args) = result_of (function_call E (M, c) args)
      \<and> (function_call E (M1, d) args = Ret (r, M2, d2)
           \<or> function_call E (M1, d) args = Throw e (M2, d2) \<longrightarrow>
         held M2 (stg c) = held M (stg c)
         \<and> result_of (function_call E (M2, c) args') = result_of (function_call E (M, c) args')))
   \<and> function_ctor counters mem0 Lvalue (small_counter 0) = Ret (mem0, small_fn 0)
   \<and> function_call counters (mem0, small_fn 0) () = Ret (1, mem0, small_fn 1)
   \<and> function_call counters (mem0, small_fn 1) () = Ret (2, mem0, small_fn 2)
   \<and> function_copy_ctor counters mem0 (small_fn 2) = Ret (mem0, small_fn 2)
   \<and> function_copy_assign counters (mem0, function_default) (Other (small_fn 2))
       = Ret (mem0, small_fn 2)
   \<and> function_call counters (mem0, small_fn 2) () = Ret (3, mem0, small_fn 3)
   \<and> function_ctor counters mem0 Lvalue (large_counter 0) = Ret (mem_of [Some (large_counter 0)], large_fn 0)
   \<and> function_call counters (mem_of [Some (large_counter 0)], large_fn 0) ()
       = Ret (1, mem_of [Some (large_counter 1)], large_fn 0)
   \<and> function_call counters (mem_of [Some (large_counter 1)], large_fn 0) ()
       = Ret (2, mem_of [Some (large_counter 2)], large_fn 0)
   \<and> function_copy_ctor counters (mem_of [Some (large_counter 2)]) (large_fn 0)
       = Ret (mem_of [Some (large_counter 2), Some (large_counter 2)], large_fn 1)
   \<and> function_copy_assign counters (mem_of [Some (large_counter 2)], function_default)
         (Other (large_fn 0))
       = Ret (mem_of [Some (large_counter 2), Some (large_counter 2)], large_fn 1)
   \<and> function_call counters (mem_of [Some (large_counter 2), Some (large_counter 2)], large_fn 1) ()
       = Ret (3, mem_of [Some (large_counter 2), Some (large_counter 3)], large_fn 1)
   \<and> function_call counters (mem_of [Some (large_counter 2), Some (large_counter 3)], large_fn 0) ()
       = Ret (3, mem_of [Some (large_counter 3), Some (large_counter 3)], large_fn 0)"
proof -
  have general: "result_of (function_call E (M1, d) args) = result_of (function_call E (M, c) args)
      \<and> (function_call E (M1, d) args = Ret (r, M2, d2)
           \<or> function_call E (M1, d) args = Throw e (M2, d2) \<longrightarrow>
         held M2 (stg c) = held M (stg c)
         \<and> result_of (function_call E (M2, c) args') = result_of (function_call E (M, c) args'))"
    if k: "function_copy_ctor E M c = Ret (M1, d) \<or>
      (held M (stg c) = Some x \<and> function_copy_assign E (M, d0) (Other c) = Ret (M1, d))"
  proof -
    from k have "held M1 (stg d) = held M (stg c) \<and> held M1 (stg c) = held M (stg c)
       \<and> methods (stg d) = methods (stg c)
       \<and> (\<forall>p. get_large_obj (stg d) = Some p \<longrightarrow> get_large_obj (stg c) \<noteq> Some p)"
    proof
      assume "function_copy_ctor E M c = Ret (M1, d)"
      then show ?thesis by (rule storage_copy_ctor_held [OF function_copy_ctor_storage])
    next
      assume a: "held M (stg c) = Some x \<and> function_copy_assign E (M, d0) (Other c) = Ret (M1, d)"
      then have h: "held M (stg c) = Some x" by simp
      from a have "storage_copy_assign E (M, stg d0) (Other (stg c)) = Ret (M1, stg d)"
        by (simp add: function_copy_assign_storage)
      from storage_copy_assign_held [OF this h] h show ?thesis by simp
    qed
    then show ?thesis by (rule separate_copy_independent)
  qed
  have s1: "function_ctor counters mem0 Lvalue (small_counter 0) = Ret (mem0, small_fn 0)"
    by (simp add: run_defs)
  have s2: "function_call counters (mem0, small_fn 0) () = Ret (1, mem0, small_fn 1)"
    by (simp add: run_defs)
  have s3: "function_call counters (mem0, small_fn 1) () = Ret (2, mem0, small_fn 2)"
    by (simp add: run_defs)
  have s4: "function_copy_ctor counters mem0 (small_fn 2) = Ret (mem0, small_fn 2)"
    by (simp add: run_defs)
  have s4': "function_copy_assign counters (mem0, function_default) (Other (small_fn 2))
       = Ret (mem0, small_fn 2)"
    by (simp add: run_defs)
  have s5: "function_call counters (mem0, small_fn 2) () = Ret (3, mem0, small_fn 3)"
    by (simp add: run_defs)
  have l1: "function_ctor counters mem0 Lvalue (large_counter 0) = Ret (mem_of [Some (large_counter 0)], large_fn 0)"
    by (simp add: run_defs)
  have l2: "function_call counters (mem_of [Some (large_counter 0)], large_fn 0) ()
       = Ret (1, mem_of [Some (large_counter 1)], large_fn 0)"
    by (simp add: run_defs)
  have l3: "function_call counters (mem_of [Some (large_counter 1)], large_fn 0) ()
       = Ret (2, mem_of [Some (large_counter 2)], large_fn 0)"
    by (simp add: run_defs)
  have l4: "function_copy_ctor counters (mem_of [Some (large_counter 2)]) (large_fn 0)
       = Ret (mem_of [Some (large_counter 2), Some (large_counter 2)], large_fn 1)"
    by (simp add: run_defs)
  have l4': "function_copy_assign counters (mem_of [Some (large_counter 2)], function_default)
         (Other (large_fn 0))
       = Ret (mem_of [Some (large_counter 2), Some (large_counter 2)], large_fn 1)"
    by (simp add: run_defs)
  have l5: "function_call counters (mem_of [Some (large_counter 2), Some (large_counter 2)], large_fn 1) ()
       = Ret (3, mem_of [Some (large_counter 2), Some (large_counter 3)], large_fn 1)"
    by (simp add: run_defs)
  have l6: "function_call counters (mem_of [Some (large_counter 2), Some (large_counter 3)], large_fn 0) ()
       = Ret (3, mem_of [Some (large_counter 3), Some (large_counter 3)], large_fn 0)"
    by (simp add: run_defs)
  show ?thesis
    by (intro conjI impI general [THEN conjunct1] general [THEN conjunct2, rule_format]
        s1 s2 s3 s4 s4' s5 l1 l2 l3 l4 l4' l5 l6)
qed

theorem copies_independent_witness:
  "function_copy_ctor counters (mem_of [Some (large_counter 2)]) (large_fn 0)
       = Ret (mem_of [Some (large_counter 2), Some (large_counter 2)], large_fn 1)
   \<and> result_of (function_call counters
          (mem_of [Some (large_counter 2), Some (large_counter 2)], large_fn 1) ()) = Some (Inr 3)
   \<and> function_call counters (mem_of [Some (large_counter 2), Some (large_counter 2)], large_fn 1) ()
       = Ret (3, mem_of [Some (large_counter 2), Some (large_counter 3)], large_fn 1)
   \<and> held (mem_of [Some (large_counter 2), Some (large_counter 3)]) (stg (large_fn 0))
       = Some (large_counter 2)
   \<and> result_of (function_call counters
          (mem_of [Some (large_counter 2), Some (large_counter 3)], large_fn 0) ()) = Some (Inr 3)"
proof -
  have k: "function_copy_ctor counters (mem_of [Some (large_counter 2)]) (large_fn 0)
       = Ret (mem_of [Some (large_counter 2), Some (large_counter 2)], large_fn 1)"
    by (simp add: run_defs)
  have i: "function_call counters (mem_of [Some (large_counter 2), Some (large_counter 2)], large_fn 1) ()
       = Ret (3, mem_of [Some (large_counter 2), Some (large_counter 3)], large_fn 1)"
    by (simp add: run_defs)
  have c: "result_of (function_call counters (mem_of [Some (large_counter 2)], large_fn 0) ())
       = Some (Inr 3)"
    by (simp add: run_defs)
  have h: "held (mem_of [Some (large_counter 2)]) (stg (large_fn 0)) = Some (large_counter 2)"
    by (simp add: run_defs)
  note t = copies_independent [THEN conjunct1, rule_format, OF disjI1 [OF k]]
  from t [THEN conjunct1, of "()"] c
  have a: "result_of (function_call counters
          (mem_of [Some (large_counter 2), Some (large_counter 2)], large_fn 1) ()) = Some (Inr 3)"
    by simp
  from t [THEN conjunct2, rule_format, OF disjI1 [OF i], of "()"] c h
  have b: "held (mem_of [Some (large_counter 2), Some (large_counter 3)]) (stg (large_fn 0))
       = Some (large_counter 2)
     \<and> result_of (function_call counters
          (mem_of [Some (large_counter 2), Some (large_counter 3)], large_fn 0) ()) = Some (Inr 3)"
    by simp
  from k a i b show ?thesis by blast
qed

end
